theory Spec2Isabelle
  imports Complex_Main "HOL-Library.Sublist" "HOL-Library.Word"
begin

section \<open>Errors\<close>

text \<open>
  Every \<^verbatim>\<open>raise ValueError(...)\<close> of \<^verbatim>\<open>imflow.py\<close> is a \<open>ValueError\<close> carrying a tag
  for its message. The specification's \<^emph>\<open>InvalidArgument\<close> and \<^emph>\<open>EmptyDataset\<close> are both
  \<open>ValueError\<close> in the code; its \<^emph>\<open>UnsupportedFormat\<close> is the failing \<^verbatim>\<open>tf.Assert\<close> of the
  DICOM branch (\<open>AssertFailed\<close>).
\<close>

datatype message =
    LabelsNotSequence       \<comment> \<open>lines 273 and 493\<close>
  | ClassNamesNeedInferred  \<comment> \<open>line 283\<close>
  | LabelModeNotAllowedDir  \<comment> \<open>line 289\<close>
  | LabelModeNotAllowed     \<comment> \<open>line 497\<close>
  | ColorModeNotAllowed     \<comment> \<open>line 510\<close>
  | LabelsMustBeRank1       \<comment> \<open>line 526: labels must have shape (samples,)\<close>
  | BinaryNeedsTwoClasses   \<comment> \<open>line 533\<close>
  | LabelsMustBeRank2       \<comment> \<open>line 539: labels must have shape (samples, num_classes)\<close>
  | UseBinaryInstead        \<comment> \<open>line 543\<close>
  | UseMultiLabelInstead    \<comment> \<open>line 547\<close>
  | ZeroSizeReduction       \<comment> \<open>\<^verbatim>\<open>np.max\<close> of an empty array\<close>
  | InhomogeneousShape      \<comment> \<open>\<^verbatim>\<open>np.array\<close> of rows of different lengths\<close>
  | IncompatibleShapes      \<comment> \<open>\<^verbatim>\<open>set_shape\<close> with a shape the tensor does not have\<close>
  | NoTrainingImages        \<comment> \<open>line 576\<close>
  | NoValidationImages      \<comment> \<open>line 581\<close>
  | NoImages                \<comment> \<open>line 630\<close>

datatype error =
    ValueError message
  | TypeError string          \<comment> \<open>unexpected keyword argument\<close>
  | UnboundLocalError string  \<comment> \<open>a local variable read before any assignment\<close>
  | AssertFailed string       \<comment> \<open>\<^verbatim>\<open>tf.Assert\<close> with a false condition\<close>
  | IndexError
  | NumpyFunctionError        \<comment> \<open>\<^verbatim>\<open>tf.numpy_function\<close> whose Python function gave no array\<close>
  | Foreign string            \<comment> \<open>raised by a collaborator outside \<^verbatim>\<open>imflow.py\<close>\<close>

definition bindE :: "error + 'a \<Rightarrow> ('a \<Rightarrow> error + 'b) \<Rightarrow> error + 'b" where
  "bindE m f = (case m of Inl e \<Rightarrow> Inl e | Inr x \<Rightarrow> f x)"

section \<open>Labels\<close>

text \<open>
  The \<^verbatim>\<open>labels\<close> argument is \<^verbatim>\<open>None\<close>, a list of integers, a list of lists of integers,
  or something that is neither a list nor a tuple. Label values are 64-bit integers read as
  signed, the values an \<^verbatim>\<open>int64\<close> array of numpy holds: sums and the successor wrap
  around as numpy's do. A Python integer outside that range gets another dtype from
  \<^verbatim>\<open>np.array\<close> and is not covered.

  \<^verbatim>\<open>np.array(labels)\<close> turns the argument into an array of rank 0, 1 or 2 (the empty list
  into an empty array of rank 1); a rank-2 array keeps its width (\<^verbatim>\<open>labels.shape[1]\<close>)
  beside its rows. Rows of different lengths have no common shape: \<^verbatim>\<open>np.array\<close> raises
  \<^verbatim>\<open>ValueError\<close>. The \<open>dtype\<close> tag records the cast \<^verbatim>\<open>labels.astype(float)\<close>.
\<close>

type_synonym i64 = "64 word"

datatype labels_arg =
    PyNone
  | PyOther                     \<comment> \<open>not \<^verbatim>\<open>None\<close>, not a list, not a tuple\<close>
  | PyList1 "i64 list"
  | PyList2 "i64 list list"

datatype larray = Rank0 | Rank1 "i64 list" | Rank2 nat "i64 list list"

datatype dtype = object | int64 | float64

record nparray =
  dtype :: dtype
  arr :: larray

fun np_array :: "labels_arg \<Rightarrow> error + nparray" where
  "np_array (PyList1 xs) = Inr \<lparr>dtype = int64, arr = Rank1 xs\<rparr>"
| "np_array (PyList2 []) = Inr \<lparr>dtype = int64, arr = Rank1 []\<rparr>"
| "np_array (PyList2 (r # rows)) =
     (if list_all (\<lambda>x. length x = length r) rows
      then Inr \<lparr>dtype = int64, arr = Rank2 (length r) (r # rows)\<rparr>
      else Inl (ValueError InhomogeneousShape))"
| "np_array _ = Inr \<lparr>dtype = object, arr = Rank0\<rparr>"

fun ndim :: "larray \<Rightarrow> nat" where
  "ndim Rank0 = 0"
| "ndim (Rank1 xs) = 1"
| "ndim (Rank2 w rows) = 2"

fun ravel :: "larray \<Rightarrow> i64 list" where
  "ravel Rank0 = []"
| "ravel (Rank1 xs) = xs"
| "ravel (Rank2 w rows) = concat rows"

text \<open>\<^verbatim>\<open>np.expand_dims(labels, axis=-1)\<close>, reached only when \<^verbatim>\<open>labels.ndim < 2\<close>.\<close>

fun expand_dims_last :: "larray \<Rightarrow> larray" where
  "expand_dims_last (Rank1 xs) = Rank2 1 (map (\<lambda>x. [x]) xs)"
| "expand_dims_last a = a"

text \<open>\<^verbatim>\<open>len(np.unique(labels))\<close>: the number of distinct values of the flattened array.\<close>

definition np_unique_len :: "larray \<Rightarrow> nat" where
  "np_unique_len a = length (remdups (ravel a))"

text \<open>\<^verbatim>\<open>labels.shape[1]\<close>, read only after \<^verbatim>\<open>labels.ndim < 2\<close> has been excluded.\<close>

fun shape1 :: "larray \<Rightarrow> nat" where
  "shape1 (Rank2 w rows) = w"
| "shape1 _ = 0"

text \<open>\<^verbatim>\<open>np.sum(labels, axis=1)\<close> of a rank-2 array: one sum per row, in \<^verbatim>\<open>int64\<close>.\<close>

fun sum_axis1 :: "larray \<Rightarrow> i64 list" where
  "sum_axis1 (Rank2 w rows) = map sum_list rows"
| "sum_axis1 _ = []"

text \<open>\<^verbatim>\<open>np.max\<close>: the largest element in signed order; \<^verbatim>\<open>ValueError\<close> on an empty array.\<close>

definition smax :: "i64 \<Rightarrow> i64 \<Rightarrow> i64" where
  "smax a b = (if a <s b then b else a)"

definition np_max :: "i64 list \<Rightarrow> error + i64" where
  "np_max xs = (case xs of [] \<Rightarrow> Inl (ValueError ZeroSizeReduction)
                | x # rest \<Rightarrow> Inr (fold smax rest x))"

subsection \<open>Lines 489 to 501: the arguments\<close>

definition allowed_label_modes :: "string option set" where
  "allowed_label_modes =
     {Some ''int'', Some ''categorical'', Some ''multi_label'', Some ''binary'', None}"

text \<open>
  The set accepted by \<^verbatim>\<open>image_dataset_from_directory\<close> (line 287).
\<close>

definition allowed_label_modes_directory :: "string option set" where
  "allowed_label_modes_directory =
     {Some ''int'', Some ''categorical'', Some ''multi_class'', Some ''multi_label'',
      Some ''binary'', None}"

definition check_arguments ::
  "labels_arg \<Rightarrow> string option \<Rightarrow> error + (labels_arg \<times> string option)" where
  "check_arguments labels label_mode =
     (if labels \<noteq> PyNone \<and> labels = PyOther then Inl (ValueError LabelsNotSequence)
      else if label_mode \<notin> allowed_label_modes then Inl (ValueError LabelModeNotAllowed)
      else if labels = PyNone \<or> label_mode = None then Inr (PyNone, None)
      else Inr (labels, label_mode))"

subsection \<open>Lines 521 to 559: shape checks and the number of classes\<close>

definition check_rank1 :: "string option \<Rightarrow> nparray \<Rightarrow> error + nparray" where
  "check_rank1 label_mode labels =
     (if label_mode \<in> {Some ''int'', Some ''categorical''} \<and> ndim (arr labels) > 1
      then Inl (ValueError LabelsMustBeRank1) else Inr labels)"

definition binary_block :: "string option \<Rightarrow> nparray \<Rightarrow> error + nparray" where
  "binary_block label_mode labels =
     (if label_mode = Some ''binary'' then
        (let labels1 = (if ndim (arr labels) < 2
                        then labels\<lparr>arr := expand_dims_last (arr labels)\<rparr> else labels)
         in if np_unique_len (arr labels1) \<noteq> 2 then Inl (ValueError BinaryNeedsTwoClasses)
            else Inr (labels1\<lparr>dtype := float64\<rparr>))
      else Inr labels)"

definition multi_block :: "string option \<Rightarrow> nparray \<Rightarrow> error + nparray" where
  "multi_block label_mode labels =
     (if label_mode \<in> {Some ''multi_class'', Some ''multi_label''} then
        (if ndim (arr labels) < 2 then Inl (ValueError LabelsMustBeRank2)
         else if shape1 (arr labels) < 2 then Inl (ValueError UseBinaryInstead)
         else if label_mode = Some ''multi_class'' then
           bindE (np_max (sum_axis1 (arr labels)))
             (\<lambda>m. if 1 <s m then Inl (ValueError UseMultiLabelInstead) else Inr labels)
         else Inr labels)
      else Inr labels)"

text \<open>
  \<^verbatim>\<open>num_classes\<close> is a local variable assigned by four independent \<^verbatim>\<open>if\<close> statements;
  \<open>None\<close> is the variable still unbound. \<^verbatim>\<open>np.max(labels) + 1\<close> is an \<^verbatim>\<open>int64\<close> sum: past
  the largest value it wraps around to the smallest.
\<close>

definition calc_num_classes :: "string option \<Rightarrow> nparray \<Rightarrow> error + int option" where
  "calc_num_classes label_mode labels =
     (let n1 = (if label_mode = Some ''binary'' then Some 2 else None) in
      bindE (if label_mode \<in> {Some ''int'', Some ''categorical''}
             then bindE (np_max (ravel (arr labels))) (\<lambda>m. Inr (Some (sint (m + 1))))
             else Inr n1)
        (\<lambda>n2. let n3 = (if label_mode = Some ''multi_class''
                         then Some (int (shape1 (arr labels))) else n2);
                   n4 = (if label_mode = Some ''multi_label''
                         then Some (int (shape1 (arr labels)) + 1) else n3)
               in Inr n4))"

text \<open>
  The label part of \<^verbatim>\<open>image_dataset_from_paths_and_labels\<close> after the argument checks.
  The returned array stands for \<^verbatim>\<open>labels.tolist()\<close>, the nested list with the same content.
\<close>

definition validate_labels ::
  "string option \<Rightarrow> labels_arg \<Rightarrow> error + (nparray \<times> int option)" where
  "validate_labels label_mode labels =
     bindE (np_array labels) (\<lambda>l0.
     bindE (check_rank1 label_mode l0) (\<lambda>l1.
     bindE (binary_block label_mode l1) (\<lambda>l2.
     bindE (multi_block label_mode l2) (\<lambda>l3.
     bindE (calc_num_classes label_mode l3) (\<lambda>n. Inr (l3, n))))))"

text \<open>The specification's \<open>reconcile\<close>: the argument checks, then the shape checks.\<close>

definition reconcile ::
  "labels_arg \<Rightarrow> string option \<Rightarrow> error + (nparray \<times> int option)" where
  "reconcile labels label_mode =
     bindE (check_arguments labels label_mode) (\<lambda>(labels1, label_mode1).
       validate_labels label_mode1 labels1)"

section \<open>The dataset pipeline\<close>

text \<open>
  A \<^verbatim>\<open>tf.data.Dataset\<close> is a description of work, not the work: the paths to map
  \<^verbatim>\<open>load_image\<close> over with its fixed arguments, the zipped label dataset if there is one,
  the stages declared on top in the order of their declaration, and the \<^verbatim>\<open>file_paths\<close>
  attribute.
\<close>

datatype stage = Prefetch | Shuffle int int | Batch int

record dataset =
  paths :: "string list"
  image_size :: "nat \<times> nat"
  num_channels :: nat
  interpolation :: string
  crop_to_aspect_ratio :: bool
  label_ds :: "(nparray \<times> string \<times> int) option"
  stages :: "stage list"
  file_paths :: "string list option"

datatype result = Single dataset | TrainVal dataset dataset

text \<open>
  The functions of \<^verbatim>\<open>utils/dataset_utils.py\<close> and \<^verbatim>\<open>utils/image_utils.py\<close> that
  \<^verbatim>\<open>imflow.py\<close> calls, and the seed \<^verbatim>\<open>np.random.randint(1e6)\<close> draws, are parameters.
\<close>

text \<open>The \<^verbatim>\<open>labels\<close> argument of \<^verbatim>\<open>image_dataset_from_directory\<close>.\<close>

datatype dir_labels = Inferred | Given labels_arg

record utils =
  get_interpolation :: "string \<Rightarrow> error + string"
  check_validation_split_arg ::
    "rat option \<Rightarrow> string option \<Rightarrow> bool \<Rightarrow> int option \<Rightarrow> error option"
  get_training_or_validation_split ::
    "string list \<Rightarrow> nparray \<Rightarrow> rat option \<Rightarrow> string option
       \<Rightarrow> error + (string list \<times> nparray)"
  index_directory ::
    "string \<Rightarrow> dir_labels \<Rightarrow> string option \<Rightarrow> string list \<Rightarrow> string list option \<Rightarrow> bool
       \<Rightarrow> int \<Rightarrow> bool \<Rightarrow> error + (string list \<times> labels_arg)"
  randint :: int

definition paths_and_labels_to_dataset ::
  "string list \<Rightarrow> nat \<times> nat \<Rightarrow> nat \<Rightarrow> nparray \<Rightarrow> string option \<Rightarrow> int \<Rightarrow> string \<Rightarrow> bool
     \<Rightarrow> dataset" where
  "paths_and_labels_to_dataset image_paths img_size channels labels label_mode num_classes
     interp crop =
     \<lparr>paths = image_paths, image_size = img_size, num_channels = channels,
      interpolation = interp, crop_to_aspect_ratio = crop,
      label_ds = (case label_mode of
                    None \<Rightarrow> None
                  | Some m \<Rightarrow> if m = [] then None else Some (labels, m, num_classes)),
      stages = [], file_paths = None\<rparr>"

definition add_stage :: "stage \<Rightarrow> dataset \<Rightarrow> dataset" where
  "add_stage s ds = ds\<lparr>stages := stages ds @ [s]\<rparr>"

definition color_channels :: "string \<Rightarrow> error + nat" where
  "color_channels color_mode =
     (if color_mode = ''rgb'' then Inr 3
      else if color_mode = ''rgba'' then Inr 4
      else if color_mode = ''grayscale'' then Inr 1
      else Inl (ValueError ColorModeNotAllowed))"

text \<open>Reading \<^verbatim>\<open>num_classes\<close> as an argument of a call, lines 590, 600 and 640.\<close>

definition read_num_classes :: "int option \<Rightarrow> error + int" where
  "read_num_classes n =
     (case n of None \<Rightarrow> Inl (UnboundLocalError ''num_classes'') | Some k \<Rightarrow> Inr k)"

text \<open>Lines 561 to 623: \<^verbatim>\<open>subset == 'both'\<close>.\<close>

definition build_both ::
  "utils \<Rightarrow> string list \<Rightarrow> nparray \<Rightarrow> string option \<Rightarrow> int option \<Rightarrow> nat \<Rightarrow> int option
     \<Rightarrow> nat \<times> nat \<Rightarrow> bool \<Rightarrow> int \<Rightarrow> rat option \<Rightarrow> string \<Rightarrow> bool \<Rightarrow> error + result" where
  "build_both u image_paths labels label_mode num_classes channels batch_size img_size shuffle
     seed validation_split interp crop =
     bindE (get_training_or_validation_split u image_paths labels validation_split
              (Some ''training'')) (\<lambda>(image_paths_train, labels_train).
     bindE (get_training_or_validation_split u image_paths labels validation_split
              (Some ''validation'')) (\<lambda>(image_paths_val, labels_val).
     if image_paths_train = [] then Inl (ValueError NoTrainingImages)
     else if image_paths_val = [] then Inl (ValueError NoValidationImages)
     else
       bindE (read_num_classes num_classes) (\<lambda>n.
         let train0 = paths_and_labels_to_dataset image_paths_train img_size channels
                        labels_train label_mode n interp crop;
             val0 = paths_and_labels_to_dataset image_paths_val img_size channels
                        labels_val label_mode n interp crop;
             train1 = add_stage Prefetch train0;
             val1 = add_stage Prefetch val0;
             train2 = (case batch_size of
                         Some b \<Rightarrow>
                           add_stage (Batch b)
                             (if shuffle then add_stage (Shuffle (b * 8) seed) train1
                              else train1)
                       | None \<Rightarrow>
                           (if shuffle then add_stage (Shuffle 1024 seed) train1
                            else train1));
             val2 = (case batch_size of
                       Some b \<Rightarrow> add_stage (Batch b) val1
                     | None \<Rightarrow> val1)
         in Inr (TrainVal (train2\<lparr>file_paths := Some image_paths_train\<rparr>)
                          (val2\<lparr>file_paths := Some image_paths_val\<rparr>)))))"

text \<open>Lines 624 to 656: every other \<^verbatim>\<open>subset\<close>.\<close>

definition build_single ::
  "utils \<Rightarrow> string list \<Rightarrow> nparray \<Rightarrow> string option \<Rightarrow> int option \<Rightarrow> nat \<Rightarrow> int option
     \<Rightarrow> nat \<times> nat \<Rightarrow> bool \<Rightarrow> int \<Rightarrow> rat option \<Rightarrow> string option \<Rightarrow> string \<Rightarrow> bool
     \<Rightarrow> error + result" where
  "build_single u image_paths labels label_mode num_classes channels batch_size img_size shuffle
     seed validation_split subset_name interp crop =
     bindE (get_training_or_validation_split u image_paths labels validation_split subset_name)
       (\<lambda>(image_paths1, labels1).
     if image_paths1 = [] then Inl (ValueError NoImages)
     else
       bindE (read_num_classes num_classes) (\<lambda>n.
         let ds0 = paths_and_labels_to_dataset image_paths1 img_size channels labels1
                     label_mode n interp crop;
             ds1 = add_stage Prefetch ds0;
             ds2 = (case batch_size of
                      Some b \<Rightarrow>
                        add_stage (Batch b)
                          (if shuffle then add_stage (Shuffle (b * 8) seed) ds1 else ds1)
                    | None \<Rightarrow>
                        (if shuffle then add_stage (Shuffle 1024 seed) ds1 else ds1))
         in Inr (Single (ds2\<lparr>file_paths := Some image_paths1\<rparr>))))"

definition image_dataset_from_paths_and_labels ::
  "utils \<Rightarrow> string list \<Rightarrow> labels_arg \<Rightarrow> string option \<Rightarrow> string \<Rightarrow> int option
     \<Rightarrow> nat \<times> nat \<Rightarrow> bool \<Rightarrow> int option \<Rightarrow> rat option \<Rightarrow> string option \<Rightarrow> string \<Rightarrow> bool
     \<Rightarrow> error + result" where
  "image_dataset_from_paths_and_labels u image_paths labels label_mode color_mode batch_size
     img_size shuffle seed validation_split subset_name interp crop =
     bindE (check_arguments labels label_mode) (\<lambda>(labels1, label_mode1).
     bindE (color_channels color_mode) (\<lambda>channels.
     bindE (get_interpolation u interp) (\<lambda>interp1.
     case check_validation_split_arg u validation_split subset_name shuffle seed of
       Some e \<Rightarrow> Inl e
     | None \<Rightarrow>
       let seed1 = (case seed of None \<Rightarrow> randint u | Some s \<Rightarrow> s) in
       bindE (validate_labels label_mode1 labels1) (\<lambda>(labels2, num_classes).
         if subset_name = Some ''both''
         then build_both u image_paths labels2 label_mode1 num_classes channels batch_size
                img_size shuffle seed1 validation_split interp1 crop
         else build_single u image_paths labels2 label_mode1 num_classes channels batch_size
                img_size shuffle seed1 validation_split subset_name interp1 crop))))"

subsection \<open>Lines 143 to 311: \<^verbatim>\<open>image_dataset_from_directory\<close>\<close>

definition ALLOWLIST_FORMATS :: "string list" where
  "ALLOWLIST_FORMATS = [''.bmp'', ''.gif'', ''.jpeg'', ''.jpg'', ''.png'', ''.dcm'']"

definition image_dataset_from_directory ::
  "utils \<Rightarrow> string \<Rightarrow> dir_labels \<Rightarrow> string option \<Rightarrow> string list option \<Rightarrow> string
     \<Rightarrow> int option \<Rightarrow> nat \<times> nat \<Rightarrow> bool \<Rightarrow> int option \<Rightarrow> rat option \<Rightarrow> string option
     \<Rightarrow> string \<Rightarrow> bool \<Rightarrow> bool \<Rightarrow> error + result" where
  "image_dataset_from_directory u directory labels label_mode class_names color_mode
     batch_size img_size shuffle seed validation_split subset_name interp follow_links crop =
     (if labels \<notin> {Inferred, Given PyNone} \<and> labels = Given PyOther
      then Inl (ValueError LabelsNotSequence)
      else if labels \<notin> {Inferred, Given PyNone} \<and> class_names \<notin> {None, Some []}
      then Inl (ValueError ClassNamesNeedInferred)
      else if label_mode \<notin> allowed_label_modes_directory
      then Inl (ValueError LabelModeNotAllowedDir)
      else
        let (labels1, label_mode1) =
              (if labels = Given PyNone \<or> label_mode = None then (Given PyNone, None)
               else (labels, label_mode));
            seed1 = (case seed of None \<Rightarrow> randint u | Some s \<Rightarrow> s)
        in bindE (index_directory u directory labels1 label_mode1 ALLOWLIST_FORMATS
                    class_names shuffle seed1 follow_links) (\<lambda>(image_paths, labels2).
             image_dataset_from_paths_and_labels u image_paths labels2 label_mode1 color_mode
               batch_size img_size shuffle (Some seed1) validation_split subset_name interp
               crop))"

text \<open>
  The order in which a dataset hands out its samples. Prefetching and batching keep the
  order of their input; what a shuffle stage does with a buffer size and a seed is the
  execution engine's business and a parameter here.
\<close>

fun sample_order :: "(int \<Rightarrow> int \<Rightarrow> 'a list \<Rightarrow> 'a list) \<Rightarrow> stage list \<Rightarrow> 'a list \<Rightarrow> 'a list" where
  "sample_order shuf [] xs = xs"
| "sample_order shuf (Prefetch # ss) xs = sample_order shuf ss xs"
| "sample_order shuf (Batch b # ss) xs = sample_order shuf ss xs"
| "sample_order shuf (Shuffle buffer seed # ss) xs = sample_order shuf ss (shuf buffer seed xs)"

section \<open>Decoding one image\<close>

text \<open>
  An array, of numpy or of TensorFlow, is its shape and its samples in row-major order.
  Samples are rational numbers: the casts \<^verbatim>\<open>astype(np.float32)\<close> and the \<^verbatim>\<open>uint8\<close> scaling
  of the DICOM decoder happen inside the engine, whose results the model takes as given.
\<close>

record array =
  shape :: "nat list"
  data :: "rat list"

text \<open>
  What \<^verbatim>\<open>load_image\<close> calls from TensorFlow, tensorflow-io and numpy with a result that
  depends on files or on floating-point interpolation is a parameter: reading a file,
  decoding it, loading a stored array, and the two resizing operations.
\<close>

record engine =
  read_file :: "string \<Rightarrow> error + nat list"
  decode_dicom_image :: "nat list \<Rightarrow> error + array"
  decode_image :: "nat list \<Rightarrow> nat \<Rightarrow> error + array"
  np_load :: "string \<Rightarrow> error + array"
  np_load_arr_0 :: "string \<Rightarrow> error + array"
  resize :: "array \<Rightarrow> nat \<times> nat \<Rightarrow> string \<Rightarrow> error + array"
  resize_with_pad :: "array \<Rightarrow> nat \<Rightarrow> nat \<Rightarrow> string \<Rightarrow> error + array"

text \<open>
  \<^verbatim>\<open>img.set_shape(shape)\<close> with a fully given shape: a tensor that has the shape goes on
  unchanged, and one that has another shape is an error. Called eagerly,
  \<^verbatim>\<open>Tensor.set_shape\<close> raises \<^verbatim>\<open>ValueError\<close> for an incompatible shape; inside
  \<^verbatim>\<open>Dataset.map\<close> the shape becomes part of the element specification and the iterator
  rejects an element that does not have it.
\<close>

definition set_shape :: "array \<Rightarrow> nat list \<Rightarrow> error + array" where
  "set_shape img s = (if shape img = s then Inr img else Inl (ValueError IncompatibleShapes))"

subsection \<open>Lines 54 to 69: numpy arrays\<close>

text \<open>
  Concatenation along the last axis of arrays that agree on all other axes: for each index
  of the leading axes, the last-axis runs of the operands one after another.
\<close>

definition concat_last :: "array list \<Rightarrow> array" where
  "concat_last xs =
     \<lparr>shape = butlast (shape (hd xs)) @ [sum_list (map (\<lambda>a. last (shape a)) xs)],
      data = concat (map (\<lambda>i. concat (map (\<lambda>a. take (last (shape a))
                                                (drop (i * last (shape a)) (data a))) xs))
                       [0 ..< prod_list (butlast (shape (hd xs)))])\<rparr>"

definition expand_dims :: "array \<Rightarrow> array" where
  "expand_dims x = x\<lparr>shape := shape x @ [1]\<rparr>"

text \<open>\<open>None\<close> is Python's \<^verbatim>\<open>None\<close>, returned when the function body ends without \<^verbatim>\<open>return\<close>.\<close>

definition numpy_channels :: "array \<Rightarrow> nat \<Rightarrow> array option" where
  "numpy_channels x num_chan =
     (if length (shape x) = 2 then
        (let x1 = expand_dims x;
             x2 = (if num_chan = 3 then concat_last [x1, x1, x1] else x1);
             x3 = (if num_chan = 4 then concat_last [x2, x2, x2, x2] else x2)
         in Some x3)
      else None)"

definition decode_npz_image :: "engine \<Rightarrow> string \<Rightarrow> nat \<Rightarrow> error + array option" where
  "decode_npz_image eng path num_chan =
     bindE (np_load_arr_0 eng path) (\<lambda>x. Inr (numpy_channels x num_chan))"

definition decode_npy_image :: "engine \<Rightarrow> string \<Rightarrow> nat \<Rightarrow> error + array option" where
  "decode_npy_image eng path num_chan =
     bindE (np_load eng path) (\<lambda>x. Inr (numpy_channels x num_chan))"

text \<open>
  \<^verbatim>\<open>tf.numpy_function(f, inp, tf.float32)\<close>: an exception of the Python function is an
  error of the operation, and so is a result that is no array.
\<close>

definition numpy_function :: "error + array option \<Rightarrow> error + array" where
  "numpy_function r =
     (case r of Inl e \<Rightarrow> Inl e
      | Inr None \<Rightarrow> Inl NumpyFunctionError
      | Inr (Some x) \<Rightarrow> Inr x)"

subsection \<open>Lines 79 to 140: \<^verbatim>\<open>load_image\<close>\<close>

text \<open>
  \<^verbatim>\<open>tf.strings.regex_full_match(path, '.*\.dcm.*')\<close>: the whole path must match, and
  \<^verbatim>\<open>.\<close> matches every character but the newline, so the path has no newline and has the
  extension somewhere in it.
\<close>

fun contains :: "string \<Rightarrow> string \<Rightarrow> bool" where
  "contains ext [] = (ext = [])"
| "contains ext (c # cs) = (prefix ext (c # cs) \<or> contains ext cs)"

definition regex_full_match :: "string \<Rightarrow> string \<Rightarrow> bool" where
  "regex_full_match path ext = (CHR 0x0A \<notin> set path \<and> contains ext path)"

text \<open>
  \<^verbatim>\<open>tf.Assert(tf.math.equal(tf.shape(img)[0], 1), ...)\<close> and, under its control
  dependency, \<^verbatim>\<open>tf.squeeze(img, axis=0)\<close>.
\<close>

definition assert_single_frame :: "array \<Rightarrow> error + array" where
  "assert_single_frame img =
     (case shape img of
        [] \<Rightarrow> Inl IndexError
      | n # rest \<Rightarrow>
          if n = 1 then Inr (img\<lparr>shape := rest\<rparr>)
          else Inl (AssertFailed ''Multiframe DICOM files are not supported.''))"

text \<open>\<^verbatim>\<open>tf.concat(values, axis=-1)\<close>; a scalar has no last axis.\<close>

definition tf_concat :: "array list \<Rightarrow> error + array" where
  "tf_concat xs =
     (if list_ex (\<lambda>a. shape a = []) xs then Inl (Foreign ''concat of scalars'')
      else Inr (concat_last xs))"

text \<open>\<^verbatim>\<open>tf.math.multiply(tf.ones(tf.shape(img), dtype=tf.uint8), 255)\<close>\<close>

definition ones_times_255 :: "array \<Rightarrow> array" where
  "ones_times_255 img = \<lparr>shape = shape img, data = replicate (prod_list (shape img)) 255\<rparr>"

definition dicom_channels :: "nat \<Rightarrow> array \<Rightarrow> error + array" where
  "dicom_channels num_chan img =
     (if num_chan = 3 then tf_concat [img, img, img]
      else if num_chan = 4 then tf_concat [img, img, img, ones_times_255 img]
      else Inr img)"

text \<open>
  \<^verbatim>\<open>tf.image.resize_with_crop_or_pad(image, target_height, target_width)\<close> crops centrally
  what is larger than the target and pads evenly with zeros what is smaller; it never
  rescales. Its three parameters are all it has: a call with any further keyword argument
  raises \<^verbatim>\<open>TypeError\<close> before the operation runs. The model runs \<^verbatim>\<open>load_image\<close> sample
  by sample and meets the exception at the call; under \<^verbatim>\<open>Dataset.map\<close> an exception that
  does not depend on the sample is raised already when the function is traced.
\<close>

definition crop_or_pad :: "array \<Rightarrow> nat \<Rightarrow> nat \<Rightarrow> error + array" where
  "crop_or_pad img target_height target_width =
     (case shape img of
        [h, w, c] \<Rightarrow>
          (let crop_h = (h - target_height) div 2; pad_h = (target_height - h) div 2;
               crop_w = (w - target_width) div 2; pad_w = (target_width - w) div 2;
               pixel = (\<lambda>i j.
                 if pad_h \<le> i \<and> i < pad_h + min h target_height \<and>
                    pad_w \<le> j \<and> j < pad_w + min w target_width
                 then take c (drop (((i - pad_h + crop_h) * w + (j - pad_w + crop_w)) * c)
                                (data img))
                 else replicate c 0)
           in Inr \<lparr>shape = [target_height, target_width, c],
                   data = concat (map (\<lambda>i. concat (map (pixel i) [0 ..< target_width]))
                                    [0 ..< target_height])\<rparr>)
      | _ \<Rightarrow> Inl (Foreign ''image must have 3 dimensions''))"

definition resize_with_crop_or_pad ::
  "array \<Rightarrow> nat \<Rightarrow> nat \<Rightarrow> (string \<times> string) list \<Rightarrow> error + array" where
  "resize_with_crop_or_pad img target_height target_width kwargs =
     (case kwargs of
        [] \<Rightarrow> crop_or_pad img target_height target_width
      | (k, v) # rest \<Rightarrow> Inl (TypeError k))"

text \<open>The three ways a branch gets its image before resizing.\<close>

definition dicom_image :: "engine \<Rightarrow> string \<Rightarrow> nat \<Rightarrow> error + array" where
  "dicom_image eng path num_chan =
     bindE (read_file eng path) (\<lambda>img_bytes.
     bindE (decode_dicom_image eng img_bytes) (\<lambda>img.
     bindE (assert_single_frame img) (\<lambda>img1.
       dicom_channels num_chan img1)))"

definition raster_image :: "engine \<Rightarrow> string \<Rightarrow> nat \<Rightarrow> error + array" where
  "raster_image eng path num_chan =
     bindE (read_file eng path) (\<lambda>img_bytes. decode_image eng img_bytes num_chan)"

definition load_image ::
  "engine \<Rightarrow> string \<Rightarrow> nat \<times> nat \<Rightarrow> nat \<Rightarrow> string \<Rightarrow> bool \<Rightarrow> error + array" where
  "load_image eng path img_size num_chan interp crop =
     (if regex_full_match path ''.dcm'' then
        bindE (dicom_image eng path num_chan) (\<lambda>img.
        bindE (if crop
               then resize_with_crop_or_pad img (fst img_size) (snd img_size)
                      [(''method'', interp)]
               else resize eng img img_size interp) (\<lambda>img1.
          set_shape img1 [fst img_size, snd img_size, num_chan]))
      else if regex_full_match path ''.npz'' then
        bindE (numpy_function (decode_npz_image eng path num_chan)) (\<lambda>img.
        bindE (if crop
               then resize_with_crop_or_pad img (fst img_size) (snd img_size)
                      [(''method'', interp)]
               else resize_with_pad eng img (fst img_size) (snd img_size) interp) (\<lambda>img1.
          set_shape img1 [fst img_size, snd img_size, num_chan]))
      else if regex_full_match path ''.npy'' then
        bindE (numpy_function (decode_npy_image eng path num_chan)) (\<lambda>img.
        bindE (if crop
               then resize_with_crop_or_pad img (fst img_size) (snd img_size)
                      [(''method'', interp)]
               else resize_with_pad eng img (fst img_size) (snd img_size) interp) (\<lambda>img1.
          set_shape img1 [fst img_size, snd img_size, num_chan]))
      else
        bindE (raster_image eng path num_chan) (\<lambda>img.
        bindE (if crop
               then resize_with_crop_or_pad img (fst img_size) (snd img_size)
                      [(''method'', interp)]
               else resize eng img img_size interp) (\<lambda>img1.
          set_shape img1 [fst img_size, snd img_size, num_chan])))"

text \<open>
  One pass over a dataset's paths in some order: each sample is decoded in turn and the
  first error ends the pass. No stage of the pipeline catches an error.
\<close>

fun mapE :: "('a \<Rightarrow> error + 'b) \<Rightarrow> 'a list \<Rightarrow> error + 'b list" where
  "mapE f [] = Inr []"
| "mapE f (x # xs) = bindE (f x) (\<lambda>y. bindE (mapE f xs) (\<lambda>ys. Inr (y # ys)))"

definition decode_pass :: "engine \<Rightarrow> dataset \<Rightarrow> string list \<Rightarrow> error + array list" where
  "decode_pass eng ds order =
     mapE (\<lambda>p. load_image eng p (image_size ds) (num_channels ds) (interpolation ds)
                  (crop_to_aspect_ratio ds)) order"

section \<open>Stand-ins for running the functions\<close>

text \<open>
  Stand-ins for the collaborators, used only to run the functions above on concrete
  inputs. The split keeps the last path for validation and does not touch the labels;
  the directory always holds one image in each of two classes.
\<close>

definition stub_utils :: utils where
  "stub_utils =
     \<lparr>get_interpolation = Inr,
      check_validation_split_arg = (\<lambda>validation_split subset_name shuffle seed. None),
      get_training_or_validation_split =
        (\<lambda>samples labels validation_split subset_name.
           if subset_name = Some ''training'' then Inr (butlast samples, labels)
           else if subset_name = Some ''validation'' then Inr ([last samples], labels)
           else Inr (samples, labels)),
      index_directory =
        (\<lambda>directory labels label_mode formats class_names shuffle seed follow_links.
           Inr ([directory @ ''/class_a/a_image_1.jpg'', directory @ ''/class_b/b_image_1.jpg''],
                case labels of Inferred \<Rightarrow> PyList1 [0, 1] | Given l \<Rightarrow> l)),
      randint = 7\<rparr>"

text \<open>
  A stand-in engine. A file's content is a one-byte tag chosen by its name; every image
  and every stored array is one row of two samples, but for a DICOM file of two frames, a
  DICOM frame of three channels and a stored volume. Plain resizing takes the nearest
  source sample for each target sample and so stretches the image over the target;
  resizing with padding scales the image by one factor until it fits and fills the rest
  of the target with zeros.
\<close>

definition stub_nearest :: "array \<Rightarrow> nat \<Rightarrow> nat \<Rightarrow> error + array" where
  "stub_nearest img h w =
     (case shape img of
        [sh, sw, c] \<Rightarrow>
          if sh = 0 \<or> sw = 0 then Inl (Foreign ''empty image'')
          else Inr \<lparr>shape = [h, w, c],
                    data = concat (map (\<lambda>i. concat (map (\<lambda>j.
                             take c (drop (((i * sh div h) * sw + j * sw div w) * c) (data img)))
                             [0 ..< w])) [0 ..< h])\<rparr>
      | _ \<Rightarrow> Inl (Foreign ''image must have 3 dimensions''))"

definition stub_letterbox :: "array \<Rightarrow> nat \<Rightarrow> nat \<Rightarrow> error + array" where
  "stub_letterbox img h w =
     (case shape img of
        [sh, sw, c] \<Rightarrow>
          if sh = 0 \<or> sw = 0 then Inl (Foreign ''empty image'')
          else bindE (if sw * h \<le> sh * w then stub_nearest img h (sw * h div sh)
                      else stub_nearest img (sh * w div sw) w)
                 (\<lambda>fitted. crop_or_pad fitted h w)
      | _ \<Rightarrow> Inl (Foreign ''image must have 3 dimensions''))"

definition stub_engine :: engine where
  "stub_engine =
     \<lparr>read_file = (\<lambda>path. Inr (if path = ''multi.dcm'' then [2]
                               else if path = ''rgb.dcm'' then [3] else [1])),
      decode_dicom_image = (\<lambda>bytes.
        if bytes = [2] then Inr \<lparr>shape = [2, 1, 2, 1], data = [1, 2, 3, 4]\<rparr>
        else if bytes = [3] then Inr \<lparr>shape = [1, 1, 2, 3], data = [1, 2, 3, 4, 5, 6]\<rparr>
        else Inr \<lparr>shape = [1, 1, 2, 1], data = [1, 2]\<rparr>),
      decode_image = (\<lambda>bytes channels.
        Inr \<lparr>shape = [1, 2, channels],
             data = replicate channels 1 @ replicate channels 2\<rparr>),
      np_load = (\<lambda>path.
        if path = ''vol.npy'' then Inr \<lparr>shape = [2, 2, 2], data = [1, 2, 3, 4, 5, 6, 7, 8]\<rparr>
        else Inr \<lparr>shape = [1, 2], data = [1, 2]\<rparr>),
      np_load_arr_0 = (\<lambda>path. Inr \<lparr>shape = [1, 2], data = [1, 2]\<rparr>),
      resize = (\<lambda>img img_size method. stub_nearest img (fst img_size) (snd img_size)),
      resize_with_pad = (\<lambda>img h w method. stub_letterbox img h w)\<rparr>"

section \<open>Basic facts\<close>

lemma bindE_Inr [simp]: "bindE (Inr x) f = f x"
  by (simp add: bindE_def)

lemma bindE_Inl [simp]: "bindE (Inl e) f = Inl e"
  by (simp add: bindE_def)

lemma bindE_eq_Inr: "bindE m f = Inr y \<longleftrightarrow> (\<exists>x. m = Inr x \<and> f x = Inr y)"
  by (cases m) simp_all

subsection \<open>The largest element and its successor in 64 bits\<close>

lemma sint_smax: "sint (smax a b) = max (sint a) (sint b)"
  by (simp add: smax_def word_sless_alt max_def)

lemma sint_fold_smax: "sint (fold smax xs x) = Max (sint ` set (x # xs))"
proof (induction xs arbitrary: x)
  case Nil
  then show ?case by simp
next
  case (Cons y ys)
  have "sint (fold smax (y # ys) x) = Max (sint ` set (smax y x # ys))"
    using Cons.IH [of "smax y x"] by simp
  also have "\<dots> = Max (insert (max (sint y) (sint x)) (sint ` set ys))"
    by (simp add: sint_smax)
  also have "\<dots> = Max (sint ` set (x # y # ys))"
  proof (cases "ys = []")
    case True
    then show ?thesis by (simp add: max.commute)
  next
    case False
    then have "Max (insert (max (sint y) (sint x)) (sint ` set ys))
               = max (max (sint y) (sint x)) (Max (sint ` set ys))"
      by simp
    also have "\<dots> = Max (insert (sint x) (insert (sint y) (sint ` set ys)))"
      using False by (simp add: max.assoc max.commute max.left_commute)
    finally show ?thesis by simp
  qed
  finally show ?case .
qed

lemma np_max_sint:
  "np_max xs = Inr m \<Longrightarrow> xs \<noteq> [] \<and> sint m = Max (sint ` set xs)"
  by (cases xs) (auto simp: np_max_def sint_fold_smax simp del: set_simps)

lemma np_max_gt: "np_max xs = Inr m \<Longrightarrow> (1 <s m) = (\<exists>x \<in> set xs. 1 <s x)"
proof -
  assume a: "np_max xs = Inr m"
  from np_max_sint [OF a] have "(1 < sint m) = (\<exists>x \<in> set xs. 1 < sint x)"
    by (simp add: Max_gr_iff)
  then show ?thesis by (simp add: word_sless_alt)
qed



section \<open>The label mode check of the entry point\<close>

text \<open>
  With no label mode \<^verbatim>\<open>num_classes\<close> is never assigned, and reading it for the call of
  \<^verbatim>\<open>paths_and_labels_to_dataset\<close> raises: the entry point returns no dataset.
\<close>

lemma validate_no_labels:
  "validate_labels None PyNone = Inr (\<lparr>dtype = object, arr = Rank0\<rparr>, None)"
  by (simp add: validate_labels_def check_rank1_def binary_block_def multi_block_def
      calc_num_classes_def)

lemma build_both_unbound:
  "build_both u image_paths labels label_mode None channels batch_size img_size shuffle seed
     validation_split interp crop \<noteq> Inr r"
  by (auto simp: build_both_def bindE_eq_Inr read_num_classes_def split: if_splits)

lemma build_single_unbound:
  "build_single u image_paths labels label_mode None channels batch_size img_size shuffle seed
     validation_split subset_name interp crop \<noteq> Inr r"
  by (auto simp: build_single_def bindE_eq_Inr read_num_classes_def split: if_splits)

lemma no_label_mode_never_returns:
  "image_dataset_from_paths_and_labels u image_paths labels None color_mode batch_size img_size
     shuffle seed validation_split subset_name interp crop \<noteq> Inr r"
proof
  assume a: "image_dataset_from_paths_and_labels u image_paths labels None color_mode
     batch_size img_size shuffle seed validation_split subset_name interp crop = Inr r"
  then have c: "check_arguments labels None = Inr (PyNone, None)"
    by (auto simp: image_dataset_from_paths_and_labels_def bindE_eq_Inr check_arguments_def
        split: if_splits)
  from a c obtain channels interp1 seed1 where
    "(if subset_name = Some ''both''
      then build_both u image_paths \<lparr>dtype = object, arr = Rank0\<rparr> None None channels
             batch_size img_size shuffle seed1 validation_split interp1 crop
      else build_single u image_paths \<lparr>dtype = object, arr = Rank0\<rparr> None None channels
             batch_size img_size shuffle seed1 validation_split subset_name interp1 crop)
     = Inr r"
    by (auto simp: image_dataset_from_paths_and_labels_def bindE_eq_Inr validate_no_labels
        Let_def split: option.splits)
  then show False
    using build_both_unbound build_single_unbound by (auto split: if_splits)
qed

lemma multi_class_never_returns:
  "image_dataset_from_paths_and_labels u image_paths labels (Some ''multi_class'') color_mode
     batch_size img_size shuffle seed validation_split subset_name interp crop \<noteq> Inr r"
  by (simp add: image_dataset_from_paths_and_labels_def check_arguments_def
      allowed_label_modes_def)

text \<open>
  Claim C1. A call of \<^verbatim>\<open>image_dataset_from_paths_and_labels\<close> with
  \<^verbatim>\<open>label_mode='multi_class'\<close> and a 0/1 matrix whose rows sum to at most 1 should pass
  the label mode check and build a dataset whose class count is the row width. The code
  does not: the set tested at line 495 lacks \<^verbatim>\<open>'multi_class'\<close>, although the set of
  \<^verbatim>\<open>image_dataset_from_directory\<close> at line 287 has it and lines 536 to 555 handle it.
  For every label matrix, so for \<^verbatim>\<open>[[1,0],[0,1],[1,0]]\<close> of the specification's third
  scenario, and whatever the other arguments, the call raises the \<^verbatim>\<open>ValueError\<close> of the
  label mode check; and \<^verbatim>\<open>image_dataset_from_directory\<close>, which accepts the mode and
  passes it on, returns no dataset for it either.
\<close>

theorem multi_class_rejected_by_entry_point:
  "Some ''multi_class'' \<in> allowed_label_modes_directory \<and>
   image_dataset_from_paths_and_labels u image_paths (PyList2 rows)
     (Some ''multi_class'') color_mode batch_size img_size shuffle seed validation_split
     subset_name interp crop = Inl (ValueError LabelModeNotAllowed) \<and>
   (\<forall>r. image_dataset_from_directory u directory dir_labels (Some ''multi_class'') class_names
      color_mode batch_size img_size shuffle seed validation_split subset_name interp
      follow_links crop \<noteq> Inr r)"
proof (intro conjI allI)
  show "Some ''multi_class'' \<in> allowed_label_modes_directory"
    by (simp add: allowed_label_modes_directory_def)
  show "image_dataset_from_paths_and_labels u image_paths (PyList2 rows)
     (Some ''multi_class'') color_mode batch_size img_size shuffle seed validation_split
     subset_name interp crop = Inl (ValueError LabelModeNotAllowed)"
    by (simp add: image_dataset_from_paths_and_labels_def check_arguments_def
        allowed_label_modes_def)
  fix r
  show "image_dataset_from_directory u directory dir_labels (Some ''multi_class'') class_names
      color_mode batch_size img_size shuffle seed validation_split subset_name interp
      follow_links crop \<noteq> Inr r"
    using multi_class_never_returns no_label_mode_never_returns
    by (auto simp: image_dataset_from_directory_def bindE_eq_Inr Let_def split: if_splits)
qed

text \<open>The docstring's directory, with inferred labels.\<close>

lemma directory_multi_class_example:
  "image_dataset_from_directory stub_utils ''main_directory'' Inferred (Some ''multi_class'')
     None ''rgb'' (Some 32) (256, 256) True None None None ''bilinear'' False False
   = Inl (ValueError LabelModeNotAllowed)"
  by (simp add: image_dataset_from_directory_def allowed_label_modes_directory_def
      stub_utils_def image_dataset_from_paths_and_labels_def check_arguments_def
      allowed_label_modes_def)


text \<open>What lines 522 to 557 do with a label matrix in \<^verbatim>\<open>multi_class\<close> mode.\<close>

lemma multi_class_checks:
  "validate_labels (Some ''multi_class'') (PyList2 (r # rows)) =
     (if \<not> list_all (\<lambda>x. length x = length r) rows then Inl (ValueError InhomogeneousShape)
      else if length r < 2 then Inl (ValueError UseBinaryInstead)
      else if \<exists>x \<in> set (r # rows). 1 <s sum_list x then Inl (ValueError UseMultiLabelInstead)
      else Inr (\<lparr>dtype = int64, arr = Rank2 (length r) (r # rows)\<rparr>, Some (int (length r))))"
proof -
  obtain m where m: "np_max (map sum_list (r # rows)) = Inr m"
    by (simp add: np_max_def)
  from np_max_gt [OF m] have "(1 <s m) = (\<exists>x \<in> set (r # rows). 1 <s sum_list x)"
    by auto
  with m show ?thesis
    by (simp add: validate_labels_def check_rank1_def binary_block_def multi_block_def
        calc_num_classes_def del: list.map set_simps)
qed

text \<open>
  Claim C7. A \<^verbatim>\<open>multi_class\<close> matrix with a row sum above 1 should fail with the message
  that suggests \<^verbatim>\<open>multi_label\<close>, a matrix of width 1 with the one that suggests
  \<^verbatim>\<open>binary\<close>, and a rank-1 input with the one that asks for shape
  (samples, num\_classes). The checks of lines 536 to 548 do exactly that, but the entry
  point never reaches them for \<^verbatim>\<open>multi_class\<close>: the label mode check of line 495 raises
  first, with its own message, for all three inputs.
\<close>

theorem multi_class_messages_unreachable:
  "validate_labels (Some ''multi_class'') (PyList2 [[1, 1], [0, 1], [0, 0]])
     = Inl (ValueError UseMultiLabelInstead) \<and>
   validate_labels (Some ''multi_class'') (PyList2 [[1], [0]])
     = Inl (ValueError UseBinaryInstead) \<and>
   validate_labels (Some ''multi_class'') (PyList1 [1, 0])
     = Inl (ValueError LabelsMustBeRank2) \<and>
   image_dataset_from_paths_and_labels u image_paths (PyList2 [[1, 1], [0, 1], [0, 0]])
     (Some ''multi_class'') color_mode batch_size img_size shuffle seed validation_split
     subset_name interp crop = Inl (ValueError LabelModeNotAllowed) \<and>
   image_dataset_from_paths_and_labels u image_paths (PyList2 [[1], [0]])
     (Some ''multi_class'') color_mode batch_size img_size shuffle seed validation_split
     subset_name interp crop = Inl (ValueError LabelModeNotAllowed) \<and>
   image_dataset_from_paths_and_labels u image_paths (PyList1 [1, 0])
     (Some ''multi_class'') color_mode batch_size img_size shuffle seed validation_split
     subset_name interp crop = Inl (ValueError LabelModeNotAllowed)"
  by (simp add: image_dataset_from_paths_and_labels_def check_arguments_def
      allowed_label_modes_def validate_labels_def check_rank1_def binary_block_def
      multi_block_def np_max_def smax_def word_sless_alt)

section \<open>Binary labels\<close>

text \<open>
  Claim C6. Under \<^verbatim>\<open>label_mode='binary'\<close> a label sequence is given a trailing axis of
  length 1 and cast to floating point, and the call fails with the \<^verbatim>\<open>ValueError\<close> of
  line 533 exactly when the number of distinct label values is not 2.
\<close>

theorem binary_labels:
  "reconcile (PyList1 xs) (Some ''binary'') =
     (if card (set xs) = 2
      then Inr (\<lparr>dtype = float64, arr = Rank2 1 (map (\<lambda>x. [x]) xs)\<rparr>, Some 2)
      else Inl (ValueError BinaryNeedsTwoClasses))"
  by (simp add: reconcile_def check_arguments_def allowed_label_modes_def validate_labels_def
      check_rank1_def binary_block_def multi_block_def calc_num_classes_def np_unique_len_def
      length_remdups_card_conv Let_def)

theorem binary_labels_witness:
  "reconcile (PyList1 [0, 1, 0]) (Some ''binary'') =
     Inr (\<lparr>dtype = float64, arr = Rank2 1 [[0], [1], [0]]\<rparr>, Some 2) \<and>
   reconcile (PyList1 [0, 1, 2]) (Some ''binary'') = Inl (ValueError BinaryNeedsTwoClasses)"
  using binary_labels [of "[0, 1, 0]"] binary_labels [of "[0, 1, 2]"]
  by (simp add: card_insert_if)

section \<open>The number of classes\<close>



lemma bindE_if: "bindE (if c then a else b) f = (if c then bindE a f else bindE b f)"
  by simp








text \<open>A call that returns has passed \<open>reconcile\<close>.\<close>

lemma entry_point_reconciles:
  assumes "image_dataset_from_paths_and_labels u image_paths labels label_mode color_mode
             batch_size img_size shuffle seed validation_split subset_name interp crop = Inr r"
  shows "\<exists>labels2 n. reconcile labels label_mode = Inr (labels2, n)"
proof -
  from assms obtain labels1 label_mode1 where
    c: "check_arguments labels label_mode = Inr (labels1, label_mode1)"
    by (auto simp: image_dataset_from_paths_and_labels_def bindE_eq_Inr)
  with assms obtain labels2 n where
    "validate_labels label_mode1 labels1 = Inr (labels2, n)"
    by (auto simp: image_dataset_from_paths_and_labels_def bindE_eq_Inr Let_def
        split: option.splits)
  with c show ?thesis by (simp add: reconcile_def)
qed




section \<open>Training and validation datasets\<close>

lemma sample_order_no_shuffle:
  "\<forall>s \<in> set ss. s = Prefetch \<or> (\<exists>b. s = Batch b) \<Longrightarrow> sample_order shuf ss xs = xs"
proof (induction ss)
  case Nil
  then show ?case by simp
next
  case (Cons s ss)
  then show ?case by (cases s) auto
qed

lemma build_both_stages:
  assumes "build_both u image_paths labels label_mode num_classes channels batch_size img_size
             shuffle seed validation_split interp crop = Inr r"
  shows "\<exists>train val labels_val. r = TrainVal train val \<and>
     get_training_or_validation_split u image_paths labels validation_split
       (Some ''validation'') = Inr (paths val, labels_val) \<and>
     file_paths val = Some (paths val) \<and>
     stages val = Prefetch # (case batch_size of Some b \<Rightarrow> [Batch b] | None \<Rightarrow> []) \<and>
     stages train =
       Prefetch # (if shuffle
                   then [Shuffle (case batch_size of Some b \<Rightarrow> b * 8 | None \<Rightarrow> 1024) seed]
                   else [])
         @ (case batch_size of Some b \<Rightarrow> [Batch b] | None \<Rightarrow> [])"
  using assms
  by (auto simp: build_both_def bindE_eq_Inr read_num_classes_def add_stage_def
      paths_and_labels_to_dataset_def Let_def split: if_splits option.splits)

text \<open>
  Claim C9. When \<^verbatim>\<open>subset='both'\<close> returns its two datasets, the validation dataset has
  a prefetch stage and, if a batch size is given, a batch stage, and never a shuffle
  stage, whatever the \<^verbatim>\<open>shuffle\<close> flag; its samples come in the order of its paths, which
  are the validation slice of the split, whatever the engine's shuffling does. With
  \<^verbatim>\<open>shuffle\<close> set, the training dataset has a shuffle stage after the prefetch, with a
  buffer of 8 times the batch size when batched and of 1024 when not, and the call's seed.
\<close>

theorem validation_never_shuffled:
  assumes "image_dataset_from_paths_and_labels u image_paths labels label_mode color_mode
             batch_size img_size shuffle seed validation_split (Some ''both'') interp crop = Inr r"
  shows "\<exists>train val labels2 labels_val. r = TrainVal train val \<and>
     get_training_or_validation_split u image_paths labels2 validation_split
       (Some ''validation'') = Inr (paths val, labels_val) \<and>
     file_paths val = Some (paths val) \<and>
     stages val = Prefetch # (case batch_size of Some b \<Rightarrow> [Batch b] | None \<Rightarrow> []) \<and>
     (\<forall>buffer sd. Shuffle buffer sd \<notin> set (stages val)) \<and>
     (\<forall>shuf. sample_order shuf (stages val) (paths val) = paths val) \<and>
     (shuffle \<longrightarrow> stages train =
        Prefetch # Shuffle (case batch_size of Some b \<Rightarrow> b * 8 | None \<Rightarrow> 1024)
                     (case seed of None \<Rightarrow> randint u | Some s \<Rightarrow> s)
          # (case batch_size of Some b \<Rightarrow> [Batch b] | None \<Rightarrow> []))"
proof -
  from assms obtain labels2 label_mode1 num_classes channels interp1 where
    b: "build_both u image_paths labels2 label_mode1 num_classes channels batch_size img_size
          shuffle (case seed of None \<Rightarrow> randint u | Some s \<Rightarrow> s) validation_split interp1 crop
        = Inr r"
    by (auto simp: image_dataset_from_paths_and_labels_def bindE_eq_Inr Let_def
        split: option.splits)
  from build_both_stages [OF b] obtain train val labels_val where
    r: "r = TrainVal train val"
    and s: "get_training_or_validation_split u image_paths labels2 validation_split
       (Some ''validation'') = Inr (paths val, labels_val)"
    and f: "file_paths val = Some (paths val)"
    and v: "stages val = Prefetch # (case batch_size of Some b \<Rightarrow> [Batch b] | None \<Rightarrow> [])"
    and t: "stages train =
       Prefetch # (if shuffle
                   then [Shuffle (case batch_size of Some b \<Rightarrow> b * 8 | None \<Rightarrow> 1024)
                          (case seed of None \<Rightarrow> randint u | Some s \<Rightarrow> s)]
                   else [])
         @ (case batch_size of Some b \<Rightarrow> [Batch b] | None \<Rightarrow> [])"
    by blast
  from v have n: "\<forall>s \<in> set (stages val). s = Prefetch \<or> (\<exists>b. s = Batch b)"
    by (auto split: option.splits)
  then have ns: "\<forall>buffer sd. Shuffle buffer sd \<notin> set (stages val)" by auto
  from n have o: "\<forall>shuf. sample_order shuf (stages val) (paths val) = paths val"
    using sample_order_no_shuffle by blast
  from r s f v ns o t show ?thesis by auto
qed

theorem validation_never_shuffled_witness:
  "\<exists>train val.
     image_dataset_from_paths_and_labels stub_utils [''a.jpg'', ''b.jpg'', ''c.png'']
       (PyList1 [0, 1, 0]) (Some ''int'') ''rgb'' (Some 2) (64, 64) True (Some 42) (Some (1 / 3))
       (Some ''both'') ''bilinear'' False = Inr (TrainVal train val) \<and>
     paths val = [''c.png''] \<and> stages val = [Prefetch, Batch 2] \<and>
     stages train = [Prefetch, Shuffle 16 42, Batch 2]"
proof -
  have e: "image_dataset_from_paths_and_labels stub_utils [''a.jpg'', ''b.jpg'', ''c.png'']
       (PyList1 [0, 1, 0]) (Some ''int'') ''rgb'' (Some 2) (64, 64) True (Some 42) (Some (1 / 3))
       (Some ''both'') ''bilinear'' False =
     Inr (TrainVal
       \<lparr>paths = [''a.jpg'', ''b.jpg''], image_size = (64, 64), num_channels = 3,
        interpolation = ''bilinear'', crop_to_aspect_ratio = False,
        label_ds = Some (\<lparr>dtype = int64, arr = Rank1 [0, 1, 0]\<rparr>, ''int'', 2),
        stages = [Prefetch, Shuffle 16 42, Batch 2], file_paths = Some [''a.jpg'', ''b.jpg'']\<rparr>
       \<lparr>paths = [''c.png''], image_size = (64, 64), num_channels = 3,
        interpolation = ''bilinear'', crop_to_aspect_ratio = False,
        label_ds = Some (\<lparr>dtype = int64, arr = Rank1 [0, 1, 0]\<rparr>, ''int'', 2),
        stages = [Prefetch, Batch 2], file_paths = Some [''c.png'']\<rparr>)"
    by (simp add: image_dataset_from_paths_and_labels_def check_arguments_def
        allowed_label_modes_def color_channels_def stub_utils_def validate_labels_def
        check_rank1_def binary_block_def multi_block_def calc_num_classes_def np_max_def
        smax_def word_sless_alt build_both_def read_num_classes_def paths_and_labels_to_dataset_def add_stage_def
        Let_def)
  from validation_never_shuffled [OF e] show ?thesis using e by auto
qed
section \<open>Replicating a plane across channels\<close>

lemma take1_drop: "i < length d \<Longrightarrow> take (Suc 0) (drop i d) = [d ! i]"
  by (simp add: take_Suc_conv_app_nth)

lemma map_nth_upt: "map (\<lambda>i. f (d ! i)) [0 ..< length d] = map f d"
  by (simp add: map_equality_iff)

lemma replicate_planes:
  assumes "length d = n"
  shows "concat (map (\<lambda>i. concat (map (\<lambda>a. take (Suc 0) (drop i a)) (replicate k d))) [0 ..< n])
         = concat (map (\<lambda>v. replicate k v) d)"
proof -
  have "map (\<lambda>i. concat (map (\<lambda>a. take (Suc 0) (drop i a)) (replicate k d))) [0 ..< length d]
        = map (\<lambda>i. replicate k (d ! i)) [0 ..< length d]"
  proof (rule map_cong [OF refl])
    fix i assume "i \<in> set [0 ..< length d]"
    then have i: "i < length d" by simp
    show "concat (map (\<lambda>a. take (Suc 0) (drop i a)) (replicate k d)) = replicate k (d ! i)"
      by (induction k) (simp_all add: take1_drop [OF i])
  qed
  also have "\<dots> = map (\<lambda>v. replicate k v) d"
    by (rule map_nth_upt)
  finally show ?thesis using assms by simp
qed

lemma numpy_channels_3:
  assumes "shape x = [h, w]" and "length (data x) = h * w"
  shows "numpy_channels x 3
         = Some \<lparr>shape = [h, w, 3], data = concat (map (\<lambda>v. [v, v, v]) (data x))\<rparr>"
proof -
  have "concat (map (\<lambda>i. concat (map (\<lambda>a. take (Suc 0) (drop i a)) (replicate 3 (data x))))
                  [0 ..< h * w])
        = concat (map (\<lambda>v. replicate 3 v) (data x))"
    by (rule replicate_planes [OF assms(2)])
  then show ?thesis using assms
    by (simp add: numpy_channels_def expand_dims_def concat_last_def numeral_3_eq_3)
qed

section \<open>The DICOM branch\<close>

lemma with_alpha:
  assumes "length d = n"
  shows "concat (map (\<lambda>i. take (Suc 0) (drop i d) @ take (Suc 0) (drop i d)
                          @ take (Suc 0) (drop i d) @ take (Suc 0) (drop i (replicate n c)))
                  [0 ..< n])
         = concat (map (\<lambda>v. [v, v, v, c]) d)"
proof -
  have "map (\<lambda>i. take (Suc 0) (drop i d) @ take (Suc 0) (drop i d)
                   @ take (Suc 0) (drop i d) @ take (Suc 0) (drop i (replicate n c)))
          [0 ..< length d]
        = map (\<lambda>i. (\<lambda>v. [v, v, v, c]) (d ! i)) [0 ..< length d]"
  proof (rule map_cong [OF refl])
    fix i assume "i \<in> set [0 ..< length d]"
    then have i: "i < length d" by simp
    with assms have "take (Suc 0) (drop i (replicate n c)) = [c]"
      by (simp add: take1_drop)
    with i show "take (Suc 0) (drop i d) @ take (Suc 0) (drop i d)
                   @ take (Suc 0) (drop i d) @ take (Suc 0) (drop i (replicate n c))
                 = (\<lambda>v. [v, v, v, c]) (d ! i)"
      by (simp add: take1_drop)
  qed
  also have "\<dots> = map (\<lambda>v. [v, v, v, c]) d"
    by (rule map_nth_upt)
  finally show ?thesis using assms by simp
qed

lemma dicom_channels_plane:
  assumes "shape img = [h, w, 1]" and "length (data img) = h * w"
  shows "dicom_channels 1 img = Inr img"
    and "dicom_channels 3 img
         = Inr \<lparr>shape = [h, w, 3], data = concat (map (\<lambda>v. [v, v, v]) (data img))\<rparr>"
    and "dicom_channels 4 img
         = Inr \<lparr>shape = [h, w, 4], data = concat (map (\<lambda>v. [v, v, v, 255]) (data img))\<rparr>"
proof -
  show "dicom_channels 1 img = Inr img"
    by (simp add: dicom_channels_def)
  have "concat (map (\<lambda>i. concat (map (\<lambda>a. take (Suc 0) (drop i a)) (replicate 3 (data img))))
                  [0 ..< h * w])
        = concat (map (\<lambda>v. replicate 3 v) (data img))"
    by (rule replicate_planes [OF assms(2)])
  then show "dicom_channels 3 img
         = Inr \<lparr>shape = [h, w, 3], data = concat (map (\<lambda>v. [v, v, v]) (data img))\<rparr>"
    using assms by (simp add: dicom_channels_def tf_concat_def concat_last_def numeral_3_eq_3)
  from with_alpha [OF assms(2), of 255] show "dicom_channels 4 img
         = Inr \<lparr>shape = [h, w, 4], data = concat (map (\<lambda>v. [v, v, v, 255]) (data img))\<rparr>"
    using assms
    by (simp add: dicom_channels_def tf_concat_def concat_last_def ones_times_255_def)
qed

lemma assert_single_frame_Inr:
  "assert_single_frame img = Inr img1 \<longleftrightarrow>
     (\<exists>rest. shape img = 1 # rest \<and> img1 = img\<lparr>shape := rest\<rparr>)"
  by (auto simp: assert_single_frame_def split: list.splits)

lemma assert_single_frame_fails:
  "shape img = n # rest \<Longrightarrow> n \<noteq> 1 \<Longrightarrow>
     assert_single_frame img = Inl (AssertFailed ''Multiframe DICOM files are not supported.'')"
  by (simp add: assert_single_frame_def)

lemma mapE_fails:
  "x \<in> set xs \<Longrightarrow> f x = Inl e \<Longrightarrow> \<exists>e'. mapE f xs = Inl e'"
proof (induction xs)
  case Nil
  then show ?case by simp
next
  case (Cons y ys)
  show ?case
  proof (cases "f y")
    case (Inl a)
    then show ?thesis by simp
  next
    case (Inr b)
    show ?thesis
    proof (cases "x = y")
      case True
      with Cons.prems Inr show ?thesis by simp
    next
      case False
      with Cons obtain e' where "mapE f ys = Inl e'" by auto
      with Inr show ?thesis by simp
    qed
  qed
qed

lemma mapE_append_fails:
  "mapE f pre = Inr ys \<Longrightarrow> f x = Inl e \<Longrightarrow> mapE f (pre @ x # post) = Inl e"
proof (induction pre arbitrary: ys)
  case Nil
  then show ?case by simp
next
  case (Cons p pre)
  from Cons.prems(1) obtain y ys' where "f p = Inr y" and "mapE f pre = Inr ys'"
    by (auto simp: bindE_eq_Inr)
  with Cons.IH [OF _ Cons.prems(2)] show ?case by simp
qed

section \<open>The branches of \<^verbatim>\<open>load_image\<close>\<close>

lemma numpy_function_Inr:
  "numpy_function r = Inr img \<longleftrightarrow> r = Inr (Some img)"
  by (auto simp: numpy_function_def split: sum.splits option.splits)

lemma decode_npz_image_Some:
  "decode_npz_image eng path c = Inr (Some img) \<longleftrightarrow>
     (\<exists>x. np_load_arr_0 eng path = Inr x \<and> numpy_channels x c = Some img)"
  by (auto simp: decode_npz_image_def bindE_eq_Inr)

lemma decode_npy_image_Some:
  "decode_npy_image eng path c = Inr (Some img) \<longleftrightarrow>
     (\<exists>x. np_load eng path = Inr x \<and> numpy_channels x c = Some img)"
  by (auto simp: decode_npy_image_def bindE_eq_Inr)

lemma numpy_function_None: "numpy_function (Inr None) = Inl NumpyFunctionError"
  by (simp add: numpy_function_def)

lemma set_shape_Inr: "set_shape img s = Inr t \<longleftrightarrow> shape img = s \<and> t = img"
  by (auto simp: set_shape_def)

text \<open>The four branches of \<^verbatim>\<open>load_image\<close> side by side: how the image is got, how it is resized.\<close>

lemma load_image_eq:
  "load_image eng path img_size c m crop =
     bindE (if regex_full_match path ''.dcm'' then dicom_image eng path c
            else if regex_full_match path ''.npz''
              then numpy_function (decode_npz_image eng path c)
            else if regex_full_match path ''.npy''
              then numpy_function (decode_npy_image eng path c)
            else raster_image eng path c) (\<lambda>img.
     bindE (if crop
            then resize_with_crop_or_pad img (fst img_size) (snd img_size) [(''method'', m)]
            else if \<not> regex_full_match path ''.dcm'' \<and>
                    (regex_full_match path ''.npz'' \<or> regex_full_match path ''.npy'')
              then resize_with_pad eng img (fst img_size) (snd img_size) m
            else resize eng img img_size m) (\<lambda>img1.
       set_shape img1 [fst img_size, snd img_size, c]))"
  by (cases "regex_full_match path ''.dcm''"; cases "regex_full_match path ''.npz''";
      cases "regex_full_match path ''.npy''"; cases crop) (simp_all add: load_image_def)

lemma load_image_Inr:
  assumes "load_image eng path img_size c m crop = Inr t"
  obtains img where
    "(if regex_full_match path ''.dcm'' then dicom_image eng path c
      else if regex_full_match path ''.npz''
        then numpy_function (decode_npz_image eng path c)
      else if regex_full_match path ''.npy''
        then numpy_function (decode_npy_image eng path c)
      else raster_image eng path c) = Inr img"
    and "(if crop
          then resize_with_crop_or_pad img (fst img_size) (snd img_size) [(''method'', m)]
          else if \<not> regex_full_match path ''.dcm'' \<and>
                  (regex_full_match path ''.npz'' \<or> regex_full_match path ''.npy'')
            then resize_with_pad eng img (fst img_size) (snd img_size) m
          else resize eng img img_size m) = Inr t"
    and "shape t = [fst img_size, snd img_size, c]"
  using assms unfolding load_image_eq bindE_eq_Inr set_shape_Inr by blast

lemma crop_call_fails:
  "resize_with_crop_or_pad img h w [(''method'', m)] = Inl (TypeError ''method'')"
  by (simp add: resize_with_crop_or_pad_def)

subsection \<open>The stand-in engine at work\<close>

lemma upt_2: "[0 ..< 2] = [0, 1]"
  by (simp add: upt_rec)

lemma stub_nearest_row:
  "length d = 2 * c \<Longrightarrow>
   stub_nearest \<lparr>shape = [1, 2, c], data = d\<rparr> 2 2
     = Inr \<lparr>shape = [2, 2, c], data = d @ d\<rparr>"
  by (simp add: stub_nearest_def upt_2)

lemma stub_letterbox_row:
  "length d = 2 * c \<Longrightarrow>
   stub_letterbox \<lparr>shape = [1, 2, c], data = d\<rparr> 2 2
     = Inr \<lparr>shape = [2, 2, c], data = d @ replicate (2 * c) 0\<rparr>"
  by (simp add: stub_letterbox_def stub_nearest_def crop_or_pad_def upt_2 mult_2
      replicate_add)


section \<open>The DICOM branch\<close>

lemma load_image_dicom:
  assumes "regex_full_match path ''.dcm''"
  shows "load_image eng path img_size num_chan interp crop =
     bindE (dicom_image eng path num_chan) (\<lambda>img.
        bindE (if crop
               then resize_with_crop_or_pad img (fst img_size) (snd img_size)
                      [(''method'', interp)]
               else resize eng img img_size interp) (\<lambda>img1.
          set_shape img1 [fst img_size, snd img_size, num_chan]))"
  using assms by (simp add: load_image_def)

text \<open>
  Claim C8. For a path that matches the DICOM pattern and a file that reads and decodes:
  a decoded tensor whose first axis is not 1 makes \<^verbatim>\<open>load_image\<close> fail with the assertion
  of line 93, whatever the other arguments, and a pass over a dataset that reaches the path
  ends with that assertion, so every pass that has the path fails; \<^verbatim>\<open>load_image\<close>
  returns only if the first axis is 1; with the first axis 1 and no cropping,
  \<^verbatim>\<open>load_image\<close> is the resizing, with the shape check, of the squeezed tensor with its
  channels replicated; and for a single plane that is the plane itself for one channel,
  every sample three times for three, and every sample three times followed by the
  constant 255 for four.
\<close>

theorem dicom_single_frame:
  assumes "regex_full_match path ''.dcm''"
    and "read_file eng path = Inr bytes"
    and "decode_dicom_image eng bytes = Inr img"
  shows "(\<forall>n rest. shape img = n # rest \<and> n \<noteq> 1 \<longrightarrow>
            load_image eng path img_size num_chan interp crop
              = Inl (AssertFailed ''Multiframe DICOM files are not supported.'') \<and>
            (\<forall>ds pre post ts. decode_pass eng ds pre = Inr ts \<longrightarrow>
               decode_pass eng ds (pre @ path # post)
                 = Inl (AssertFailed ''Multiframe DICOM files are not supported.'')) \<and>
            (\<forall>ds order. path \<in> set order \<longrightarrow> (\<exists>e. decode_pass eng ds order = Inl e))) \<and>
         (\<forall>t. load_image eng path img_size num_chan interp crop = Inr t \<longrightarrow>
            (\<exists>rest. shape img = 1 # rest)) \<and>
         (\<forall>rest. shape img = 1 # rest \<longrightarrow>
            load_image eng path img_size num_chan interp False
              = bindE (dicom_channels num_chan (img\<lparr>shape := rest\<rparr>)) (\<lambda>img1.
                bindE (resize eng img1 img_size interp) (\<lambda>img2.
                  set_shape img2 [fst img_size, snd img_size, num_chan]))) \<and>
         (\<forall>a b. shape img = [1, a, b, 1] \<and> length (data img) = a * b \<longrightarrow>
            load_image eng path img_size 1 interp False
              = bindE (resize eng \<lparr>shape = [a, b, 1], data = data img\<rparr> img_size interp)
                  (\<lambda>img2. set_shape img2 [fst img_size, snd img_size, 1]) \<and>
            load_image eng path img_size 3 interp False
              = bindE (resize eng \<lparr>shape = [a, b, 3],
                                   data = concat (map (\<lambda>v. [v, v, v]) (data img))\<rparr>
                         img_size interp)
                  (\<lambda>img2. set_shape img2 [fst img_size, snd img_size, 3]) \<and>
            load_image eng path img_size 4 interp False
              = bindE (resize eng \<lparr>shape = [a, b, 4],
                                   data = concat (map (\<lambda>v. [v, v, v, 255]) (data img))\<rparr>
                         img_size interp)
                  (\<lambda>img2. set_shape img2 [fst img_size, snd img_size, 4]))"
proof (intro conjI allI impI)
  fix n rest
  assume a: "shape img = n # rest \<and> n \<noteq> 1"
  then have f: "assert_single_frame img
                = Inl (AssertFailed ''Multiframe DICOM files are not supported.'')"
    using assert_single_frame_fails by blast
  have d: "\<And>c. dicom_image eng path c
                = Inl (AssertFailed ''Multiframe DICOM files are not supported.'')"
    using assms f by (simp add: dicom_image_def)
  have l: "\<And>s c m k. load_image eng path s c m k
           = Inl (AssertFailed ''Multiframe DICOM files are not supported.'')"
    using d by (simp add: load_image_dicom [OF assms(1)])
  show "load_image eng path img_size num_chan interp crop
           = Inl (AssertFailed ''Multiframe DICOM files are not supported.'')"
    by (rule l)
  {
    fix ds :: dataset and pre post :: "string list" and ts :: "array list"
    assume "decode_pass eng ds pre = Inr ts"
    then show "decode_pass eng ds (pre @ path # post)
                 = Inl (AssertFailed ''Multiframe DICOM files are not supported.'')"
      unfolding decode_pass_def by (rule mapE_append_fails) (rule l)
  }
  {
    fix ds :: dataset and order :: "string list"
    assume "path \<in> set order"
    then show "\<exists>e. decode_pass eng ds order = Inl e"
      unfolding decode_pass_def by (rule mapE_fails) (rule l)
  }
next
  fix t
  assume "load_image eng path img_size num_chan interp crop = Inr t"
  then obtain img0 where "dicom_image eng path num_chan = Inr img0"
    by (auto simp: load_image_dicom [OF assms(1)] bindE_eq_Inr)
  with assms obtain img1 where "assert_single_frame img = Inr img1"
    by (auto simp: dicom_image_def bindE_eq_Inr)
  then show "\<exists>rest. shape img = 1 # rest"
    by (auto simp: assert_single_frame_Inr)
next
  fix rest
  assume "shape img = 1 # rest"
  then have "assert_single_frame img = Inr (img\<lparr>shape := rest\<rparr>)"
    by (simp add: assert_single_frame_Inr)
  with assms show "load_image eng path img_size num_chan interp False
              = bindE (dicom_channels num_chan (img\<lparr>shape := rest\<rparr>)) (\<lambda>img1.
                bindE (resize eng img1 img_size interp) (\<lambda>img2.
                  set_shape img2 [fst img_size, snd img_size, num_chan]))"
    by (simp add: load_image_dicom [OF assms(1)] dicom_image_def)
next
  fix a b
  assume a: "shape img = [1, a, b, 1] \<and> length (data img) = a * b"
  then have s: "assert_single_frame img = Inr (img\<lparr>shape := [a, b, 1]\<rparr>)"
    by (simp add: assert_single_frame_Inr)
  have p: "shape (img\<lparr>shape := [a, b, 1]\<rparr>) = [a, b, 1]"
    "length (data (img\<lparr>shape := [a, b, 1]\<rparr>)) = a * b"
    using a by simp_all
  have e: "img\<lparr>shape := [a, b, 1]\<rparr> = \<lparr>shape = [a, b, 1], data = data img\<rparr>"
    by simp
  have d1: "dicom_image eng path 1 = Inr \<lparr>shape = [a, b, 1], data = data img\<rparr>"
    using assms s dicom_channels_plane(1) [OF p] by (simp add: dicom_image_def)
  have d3: "dicom_image eng path 3
              = Inr \<lparr>shape = [a, b, 3], data = concat (map (\<lambda>v. [v, v, v]) (data img))\<rparr>"
    using assms s dicom_channels_plane(2) [OF p] by (simp add: dicom_image_def)
  have d4: "dicom_image eng path 4
              = Inr \<lparr>shape = [a, b, 4],
                      data = concat (map (\<lambda>v. [v, v, v, 255]) (data img))\<rparr>"
    using assms s dicom_channels_plane(3) [OF p] by (simp add: dicom_image_def)
  show "load_image eng path img_size 1 interp False
              = bindE (resize eng \<lparr>shape = [a, b, 1], data = data img\<rparr> img_size interp)
                  (\<lambda>img2. set_shape img2 [fst img_size, snd img_size, 1])"
    unfolding load_image_dicom [OF assms(1)] d1 by simp
  show "load_image eng path img_size 3 interp False
              = bindE (resize eng \<lparr>shape = [a, b, 3],
                                   data = concat (map (\<lambda>v. [v, v, v]) (data img))\<rparr>
                         img_size interp)
                  (\<lambda>img2. set_shape img2 [fst img_size, snd img_size, 3])"
    unfolding load_image_dicom [OF assms(1)] d3 by simp
  show "load_image eng path img_size 4 interp False
              = bindE (resize eng \<lparr>shape = [a, b, 4],
                                   data = concat (map (\<lambda>v. [v, v, v, 255]) (data img))\<rparr>
                         img_size interp)
                  (\<lambda>img2. set_shape img2 [fst img_size, snd img_size, 4])"
    unfolding load_image_dicom [OF assms(1)] d4 by simp
qed

lemma match_multi: "regex_full_match ''multi.dcm'' ''.dcm''"
  by (simp add: regex_full_match_def)

lemma match_scan: "regex_full_match ''scan.dcm'' ''.dcm''"
  by (simp add: regex_full_match_def)

theorem dicom_single_frame_witness:
  "load_image stub_engine ''multi.dcm'' (2, 2) 4 ''bilinear'' False
     = Inl (AssertFailed ''Multiframe DICOM files are not supported.'') \<and>
   load_image stub_engine ''scan.dcm'' (2, 2) 4 ''bilinear'' False
     = Inr \<lparr>shape = [2, 2, 4],
             data = [1, 1, 1, 255, 2, 2, 2, 255, 1, 1, 1, 255, 2, 2, 2, 255]\<rparr> \<and>
   decode_pass stub_engine
     (paths_and_labels_to_dataset [''scan.dcm'', ''multi.dcm'', ''scan.dcm''] (2, 2) 4
        \<lparr>dtype = object, arr = Rank0\<rparr> None 0 ''bilinear'' False)
     [''scan.dcm'']
     = Inr [\<lparr>shape = [2, 2, 4],
             data = [1, 1, 1, 255, 2, 2, 2, 255, 1, 1, 1, 255, 2, 2, 2, 255]\<rparr>] \<and>
   decode_pass stub_engine
     (paths_and_labels_to_dataset [''scan.dcm'', ''multi.dcm'', ''scan.dcm''] (2, 2) 4
        \<lparr>dtype = object, arr = Rank0\<rparr> None 0 ''bilinear'' False)
     [''scan.dcm'', ''multi.dcm'', ''scan.dcm'']
     = Inl (AssertFailed ''Multiframe DICOM files are not supported.'')"
proof -
  let ?ds = "paths_and_labels_to_dataset [''scan.dcm'', ''multi.dcm'', ''scan.dcm''] (2, 2) 4
        \<lparr>dtype = object, arr = Rank0\<rparr> None 0 ''bilinear'' False"
  have r: "read_file stub_engine ''multi.dcm'' = Inr [2]"
    "read_file stub_engine ''scan.dcm'' = Inr [1]"
    by (simp_all add: stub_engine_def)
  have d: "decode_dicom_image stub_engine [2]
           = Inr \<lparr>shape = [2, 1, 2, 1], data = [1, 2, 3, 4]\<rparr>"
    "decode_dicom_image stub_engine [1] = Inr \<lparr>shape = [1, 1, 2, 1], data = [1, 2]\<rparr>"
    by (simp_all add: stub_engine_def)
  have n: "resize stub_engine \<lparr>shape = [1, 2, 4], data = [1, 1, 1, 255, 2, 2, 2, 255]\<rparr>
             (2, 2) ''bilinear''
           = Inr \<lparr>shape = [2, 2, 4],
                   data = [1, 1, 1, 255, 2, 2, 2, 255, 1, 1, 1, 255, 2, 2, 2, 255]\<rparr>"
    using stub_nearest_row [of "[1, 1, 1, 255, 2, 2, 2, 255]" 4]
    by (simp add: stub_engine_def)
  from dicom_single_frame [OF match_scan r(2) d(2), of "(2, 2)" 4 "''bilinear''" False,
      THEN conjunct2, THEN conjunct2, THEN conjunct2] n
  have s: "load_image stub_engine ''scan.dcm'' (2, 2) 4 ''bilinear'' False
     = Inr \<lparr>shape = [2, 2, 4],
             data = [1, 1, 1, 255, 2, 2, 2, 255, 1, 1, 1, 255, 2, 2, 2, 255]\<rparr>"
    by (simp add: set_shape_def)
  then have p: "decode_pass stub_engine ?ds [''scan.dcm'']
     = Inr [\<lparr>shape = [2, 2, 4],
             data = [1, 1, 1, 255, 2, 2, 2, 255, 1, 1, 1, 255, 2, 2, 2, 255]\<rparr>]"
    by (simp add: decode_pass_def paths_and_labels_to_dataset_def)
  from dicom_single_frame [OF match_multi r(1) d(1), of "(2, 2)" 4 "''bilinear''" False,
      THEN conjunct1]
  have m: "load_image stub_engine ''multi.dcm'' (2, 2) 4 ''bilinear'' False
     = Inl (AssertFailed ''Multiframe DICOM files are not supported.'')"
    and "\<forall>ds pre post ts. decode_pass stub_engine ds pre = Inr ts \<longrightarrow>
               decode_pass stub_engine ds (pre @ ''multi.dcm'' # post)
                 = Inl (AssertFailed ''Multiframe DICOM files are not supported.'')"
    by simp_all
  with p have "decode_pass stub_engine ?ds ([''scan.dcm''] @ ''multi.dcm'' # [''scan.dcm''])
                 = Inl (AssertFailed ''Multiframe DICOM files are not supported.'')"
    by blast
  with s p m show ?thesis by simp
qed

section \<open>Arrays that are not planes\<close>

text \<open>
  Claim C10. \<^verbatim>\<open>numpy_channels\<close> returns \<^verbatim>\<open>None\<close> for every array whose rank is not 2,
  and so do \<^verbatim>\<open>decode_npz_image\<close> and \<^verbatim>\<open>decode_npy_image\<close> on a file that holds such an
  array; \<^verbatim>\<open>load_image\<close> then fails in the numpy branches, with the error of
  \<^verbatim>\<open>tf.numpy_function\<close> and not with the assertion of the DICOM branch.
\<close>

theorem numpy_channels_only_rank_2:
  assumes "length (shape x) \<noteq> 2"
  shows "numpy_channels x num_chan = None \<and>
         (np_load_arr_0 eng path = Inr x \<longrightarrow>
            decode_npz_image eng path num_chan = Inr None) \<and>
         (np_load eng path = Inr x \<longrightarrow>
            decode_npy_image eng path num_chan = Inr None) \<and>
         (\<not> regex_full_match path ''.dcm'' \<and>
          (regex_full_match path ''.npz'' \<and> np_load_arr_0 eng path = Inr x \<or>
           \<not> regex_full_match path ''.npz'' \<and> regex_full_match path ''.npy'' \<and>
             np_load eng path = Inr x) \<longrightarrow>
            load_image eng path img_size num_chan interp crop = Inl NumpyFunctionError)"
proof -
  have n: "numpy_channels x num_chan = None"
    using assms by (simp add: numpy_channels_def)
  have z: "np_load_arr_0 eng path = Inr x \<longrightarrow> decode_npz_image eng path num_chan = Inr None"
    using n by (simp add: decode_npz_image_def)
  have y: "np_load eng path = Inr x \<longrightarrow> decode_npy_image eng path num_chan = Inr None"
    using n by (simp add: decode_npy_image_def)
  have l: "\<not> regex_full_match path ''.dcm'' \<and>
          (regex_full_match path ''.npz'' \<and> np_load_arr_0 eng path = Inr x \<or>
           \<not> regex_full_match path ''.npz'' \<and> regex_full_match path ''.npy'' \<and>
             np_load eng path = Inr x) \<longrightarrow>
            load_image eng path img_size num_chan interp crop = Inl NumpyFunctionError"
    using z y by (auto simp: load_image_def numpy_function_None)
  from n z y l show ?thesis by blast
qed

theorem numpy_channels_only_rank_2_witness:
  "length (shape \<lparr>shape = [2, 2, 2], data = [1, 2, 3, 4, 5, 6, 7, 8]\<rparr>) \<noteq> 2 \<and>
   numpy_channels \<lparr>shape = [2, 2, 2], data = [1, 2, 3, 4, 5, 6, 7, 8]\<rparr> 3 = None \<and>
   load_image stub_engine ''vol.npy'' (2, 2) 3 ''bilinear'' False = Inl NumpyFunctionError"
proof -
  have s: "length (shape \<lparr>shape = [2, 2, 2], data = [1, 2, 3, 4, 5, 6, 7, 8]\<rparr>) \<noteq> 2"
    by simp
  have m: "\<not> regex_full_match ''vol.npy'' ''.dcm''" "\<not> regex_full_match ''vol.npy'' ''.npz''"
    "regex_full_match ''vol.npy'' ''.npy''"
    by (simp_all add: regex_full_match_def)
  have l: "np_load stub_engine ''vol.npy''
           = Inr \<lparr>shape = [2, 2, 2], data = [1, 2, 3, 4, 5, 6, 7, 8]\<rparr>"
    by (simp add: stub_engine_def)
  from numpy_channels_only_rank_2 [OF s, of 3 stub_engine "''vol.npy''" "(2, 2)" "''bilinear''" False]
    m l s
  show ?thesis by simp
qed

section \<open>Cropping to the aspect ratio\<close>

text \<open>
  Claim C4. With \<^verbatim>\<open>crop_to_aspect_ratio\<close> set, the decoder should crop the largest centred
  window of the target's aspect ratio and resize it to the target, leaving no padding in
  the output, as the docstrings of lines 234 to 239 and 455 to 460 say too. The code calls
  \<^verbatim>\<open>tf.image.resize_with_crop_or_pad\<close> with a \<^verbatim>\<open>method\<close> keyword in every branch
  (lines 101, 109, 117, 136): the call raises \<^verbatim>\<open>TypeError\<close>, so \<^verbatim>\<open>load_image\<close> returns no
  image at all, for any engine, path and size; and the operation it names would pad a
  source smaller than the target with zeros instead of resizing it, as it does with a
  2 by 2 plane for a 4 by 4 target.
\<close>

theorem crop_to_aspect_ratio_never_returns:
  "(\<forall>t. load_image eng path img_size num_chan interp True \<noteq> Inr t) \<and>
   load_image stub_engine ''a.png'' (4, 4) 1 ''bilinear'' True = Inl (TypeError ''method'') \<and>
   crop_or_pad \<lparr>shape = [2, 2, 1], data = [1, 2, 3, 4]\<rparr> 4 4
     = Inr \<lparr>shape = [4, 4, 1],
             data = [0, 0, 0, 0,  0, 1, 2, 0,  0, 3, 4, 0,  0, 0, 0, 0]\<rparr>"
proof (intro conjI allI)
  fix t
  show "load_image eng path img_size num_chan interp True \<noteq> Inr t"
  proof
    assume "load_image eng path img_size num_chan interp True = Inr t"
    then obtain img where
      "resize_with_crop_or_pad img (fst img_size) (snd img_size) [(''method'', interp)] = Inr t"
      by (rule load_image_Inr) simp
    then show False by (simp add: crop_call_fails)
  qed
next
  show "load_image stub_engine ''a.png'' (4, 4) 1 ''bilinear'' True = Inl (TypeError ''method'')"
    by (simp add: load_image_def regex_full_match_def raster_image_def stub_engine_def
        crop_call_fails)
next
  have u: "[0 ..< 4] = [0, 1, 2, 3]"
    by (simp add: upt_rec)
  show "crop_or_pad \<lparr>shape = [2, 2, 1], data = [1, 2, 3, 4]\<rparr> 4 4
     = Inr \<lparr>shape = [4, 4, 1],
             data = [0, 0, 0, 0,  0, 1, 2, 0,  0, 3, 4, 0,  0, 0, 0, 0]\<rparr>"
    by (simp add: crop_or_pad_def u)
qed

section \<open>Resizing without cropping\<close>

text \<open>
  Claim C5. Without \<^verbatim>\<open>crop_to_aspect_ratio\<close>: for a \<^verbatim>\<open>.npz\<close> or \<^verbatim>\<open>.npy\<close> path (one that
  does not match the DICOM pattern first) whose stored array \<^verbatim>\<open>numpy_channels\<close> turns
  into an image, \<^verbatim>\<open>load_image\<close> is \<^verbatim>\<open>resize_with_pad\<close> of that image to the target height
  and width, with the shape check; for a DICOM path and for any other path whose image
  decodes, it is the plain \<^verbatim>\<open>resize\<close> of the decoded image to the target size, with the
  shape check. A stored plane of \<open>a\<close> by \<open>b\<close> samples in a \<^verbatim>\<open>.npz\<close> file, with three
  channels asked for, goes into \<^verbatim>\<open>resize_with_pad\<close> with every sample three times.
\<close>

theorem resize_policy_without_crop:
  "(\<not> regex_full_match path ''.dcm'' \<and>
    (regex_full_match path ''.npz'' \<or> regex_full_match path ''.npy'') \<and>
    (if regex_full_match path ''.npz'' then np_load_arr_0 eng path else np_load eng path)
      = Inr x \<and>
    numpy_channels x num_chan = Some img \<longrightarrow>
      load_image eng path (h, w) num_chan interp False
        = bindE (resize_with_pad eng img h w interp)
            (\<lambda>img1. set_shape img1 [h, w, num_chan])) \<and>
   ((regex_full_match path ''.dcm'' \<or>
     \<not> regex_full_match path ''.npz'' \<and> \<not> regex_full_match path ''.npy'') \<and>
    (if regex_full_match path ''.dcm'' then dicom_image eng path num_chan
     else raster_image eng path num_chan) = Inr img \<longrightarrow>
      load_image eng path (h, w) num_chan interp False
        = bindE (resize eng img (h, w) interp)
            (\<lambda>img1. set_shape img1 [h, w, num_chan])) \<and>
   (\<not> regex_full_match path ''.dcm'' \<and> regex_full_match path ''.npz'' \<and>
    np_load_arr_0 eng path = Inr x \<and> shape x = [a, b] \<and> length (data x) = a * b \<longrightarrow>
      load_image eng path (h, w) 3 interp False
        = bindE (resize_with_pad eng
                   \<lparr>shape = [a, b, 3], data = concat (map (\<lambda>v. [v, v, v]) (data x))\<rparr>
                   h w interp)
            (\<lambda>img1. set_shape img1 [h, w, 3]))"
proof (intro conjI impI)
  assume a: "\<not> regex_full_match path ''.dcm'' \<and>
    (regex_full_match path ''.npz'' \<or> regex_full_match path ''.npy'') \<and>
    (if regex_full_match path ''.npz'' then np_load_arr_0 eng path else np_load eng path)
      = Inr x \<and>
    numpy_channels x num_chan = Some img"
  then have "(if regex_full_match path ''.npz''
              then numpy_function (decode_npz_image eng path num_chan)
              else numpy_function (decode_npy_image eng path num_chan)) = Inr img"
    by (auto simp: numpy_function_Inr decode_npz_image_Some decode_npy_image_Some)
  with a show "load_image eng path (h, w) num_chan interp False
        = bindE (resize_with_pad eng img h w interp)
            (\<lambda>img1. set_shape img1 [h, w, num_chan])"
    by (auto simp: load_image_eq)
next
  assume a: "(regex_full_match path ''.dcm'' \<or>
     \<not> regex_full_match path ''.npz'' \<and> \<not> regex_full_match path ''.npy'') \<and>
    (if regex_full_match path ''.dcm'' then dicom_image eng path num_chan
     else raster_image eng path num_chan) = Inr img"
  then show "load_image eng path (h, w) num_chan interp False
        = bindE (resize eng img (h, w) interp)
            (\<lambda>img1. set_shape img1 [h, w, num_chan])"
    by (auto simp: load_image_eq)
next
  assume a: "\<not> regex_full_match path ''.dcm'' \<and> regex_full_match path ''.npz'' \<and>
    np_load_arr_0 eng path = Inr x \<and> shape x = [a, b] \<and> length (data x) = a * b"
  then have "numpy_channels x 3
      = Some \<lparr>shape = [a, b, 3], data = concat (map (\<lambda>v. [v, v, v]) (data x))\<rparr>"
    using numpy_channels_3 by blast
  with a have "numpy_function (decode_npz_image eng path 3)
      = Inr \<lparr>shape = [a, b, 3], data = concat (map (\<lambda>v. [v, v, v]) (data x))\<rparr>"
    by (simp add: numpy_function_Inr decode_npz_image_Some)
  with a show "load_image eng path (h, w) 3 interp False
        = bindE (resize_with_pad eng
                   \<lparr>shape = [a, b, 3], data = concat (map (\<lambda>v. [v, v, v]) (data x))\<rparr>
                   h w interp)
            (\<lambda>img1. set_shape img1 [h, w, 3])"
    by (simp add: load_image_eq)
qed

lemma stub_matches:
  "\<not> regex_full_match ''a.npz'' ''.dcm''" "regex_full_match ''a.npz'' ''.npz''"
  "\<not> regex_full_match ''a.npy'' ''.dcm''" "\<not> regex_full_match ''a.npy'' ''.npz''"
  "regex_full_match ''a.npy'' ''.npy''"
  "\<not> regex_full_match ''a.png'' ''.dcm''" "\<not> regex_full_match ''a.png'' ''.npz''"
  "\<not> regex_full_match ''a.png'' ''.npy''"
  "regex_full_match ''rgb.dcm'' ''.dcm''"
  by (simp_all add: regex_full_match_def)

lemma stub_plane_3:
  "numpy_channels \<lparr>shape = [1, 2], data = [1, 2]\<rparr> 3
     = Some \<lparr>shape = [1, 2, 3], data = [1, 1, 1, 2, 2, 2]\<rparr>"
  using numpy_channels_3 [of "\<lparr>shape = [1, 2], data = [1, 2]\<rparr>" 1 2] by simp

theorem resize_policy_without_crop_witness:
  "load_image stub_engine ''a.npz'' (2, 2) 3 ''bilinear'' False
     = Inr \<lparr>shape = [2, 2, 3], data = [1, 1, 1, 2, 2, 2, 0, 0, 0, 0, 0, 0]\<rparr> \<and>
   load_image stub_engine ''a.npy'' (2, 2) 3 ''bilinear'' False
     = Inr \<lparr>shape = [2, 2, 3], data = [1, 1, 1, 2, 2, 2, 0, 0, 0, 0, 0, 0]\<rparr> \<and>
   load_image stub_engine ''a.png'' (2, 2) 3 ''bilinear'' False
     = Inr \<lparr>shape = [2, 2, 3], data = [1, 1, 1, 2, 2, 2, 1, 1, 1, 2, 2, 2]\<rparr> \<and>
   load_image stub_engine ''scan.dcm'' (2, 2) 3 ''bilinear'' False
     = Inr \<lparr>shape = [2, 2, 3], data = [1, 1, 1, 2, 2, 2, 1, 1, 1, 2, 2, 2]\<rparr>"
proof -
  let ?plane = "\<lparr>shape = [1, 2], data = [1, 2]\<rparr>"
  let ?img = "\<lparr>shape = [1, 2, 3], data = [1, 1, 1, 2, 2, 2]\<rparr>"
  have pad: "resize_with_pad stub_engine ?img 2 2 ''bilinear''
             = Inr \<lparr>shape = [2, 2, 3], data = [1, 1, 1, 2, 2, 2, 0, 0, 0, 0, 0, 0]\<rparr>"
    using stub_letterbox_row [of "[1, 1, 1, 2, 2, 2]" 3]
    by (simp add: stub_engine_def numeral_eq_Suc)
  have plain: "resize stub_engine ?img (2, 2) ''bilinear''
             = Inr \<lparr>shape = [2, 2, 3], data = [1, 1, 1, 2, 2, 2, 1, 1, 1, 2, 2, 2]\<rparr>"
    using stub_nearest_row [of "[1, 1, 1, 2, 2, 2]" 3]
    by (simp add: stub_engine_def)
  have z: "np_load_arr_0 stub_engine ''a.npz'' = Inr ?plane"
    and y: "np_load stub_engine ''a.npy'' = Inr ?plane"
    and p: "raster_image stub_engine ''a.png'' 3 = Inr ?img"
    and d: "dicom_image stub_engine ''scan.dcm'' 3 = Inr ?img"
    by (simp_all add: stub_engine_def raster_image_def dicom_image_def
        assert_single_frame_def dicom_channels_def tf_concat_def concat_last_def
        numeral_eq_Suc)
  from resize_policy_without_crop [of "''a.npz''" stub_engine ?plane 3 ?img 2 2
      "''bilinear''", THEN conjunct1] stub_matches z stub_plane_3 pad
  have 1: "load_image stub_engine ''a.npz'' (2, 2) 3 ''bilinear'' False
     = Inr \<lparr>shape = [2, 2, 3], data = [1, 1, 1, 2, 2, 2, 0, 0, 0, 0, 0, 0]\<rparr>"
    by (simp add: set_shape_def)
  from resize_policy_without_crop [of "''a.npy''" stub_engine ?plane 3 ?img 2 2
      "''bilinear''", THEN conjunct1] stub_matches y stub_plane_3 pad
  have 2: "load_image stub_engine ''a.npy'' (2, 2) 3 ''bilinear'' False
     = Inr \<lparr>shape = [2, 2, 3], data = [1, 1, 1, 2, 2, 2, 0, 0, 0, 0, 0, 0]\<rparr>"
    by (simp add: set_shape_def)
  from resize_policy_without_crop [of "''a.png''" stub_engine ?plane 3 ?img 2 2
      "''bilinear''", THEN conjunct2, THEN conjunct1] stub_matches p plain
  have 3: "load_image stub_engine ''a.png'' (2, 2) 3 ''bilinear'' False
     = Inr \<lparr>shape = [2, 2, 3], data = [1, 1, 1, 2, 2, 2, 1, 1, 1, 2, 2, 2]\<rparr>"
    by (simp add: set_shape_def)
  from resize_policy_without_crop [of "''scan.dcm''" stub_engine ?plane 3 ?img 2 2
      "''bilinear''", THEN conjunct2, THEN conjunct1] match_scan d plain
  have 4: "load_image stub_engine ''scan.dcm'' (2, 2) 3 ''bilinear'' False
     = Inr \<lparr>shape = [2, 2, 3], data = [1, 1, 1, 2, 2, 2, 1, 1, 1, 2, 2, 2]\<rparr>"
    by (simp add: set_shape_def)
  from 1 2 3 4 show ?thesis by simp
qed

section \<open>The shape of the returned tensor\<close>

text \<open>
  Claim C2. Whenever \<^verbatim>\<open>load_image\<close> returns, in any branch and for any image size,
  number of channels, interpolation and cropping flag, the returned tensor has the shape
  (height, width, num\_channels) of the call. The shape is checked by \<^verbatim>\<open>set_shape\<close> after
  decoding and resizing: once the image of the branch has been decoded and resized,
  \<^verbatim>\<open>load_image\<close> returns the resized image if it has that shape and fails otherwise.
\<close>

theorem load_image_shape_asserted:
  "(load_image eng path (h, w) num_chan interp crop = Inr t \<longrightarrow>
      shape t = [h, w, num_chan]) \<and>
   ((if regex_full_match path ''.dcm'' then dicom_image eng path num_chan
     else if regex_full_match path ''.npz''
       then numpy_function (decode_npz_image eng path num_chan)
     else if regex_full_match path ''.npy''
       then numpy_function (decode_npy_image eng path num_chan)
     else raster_image eng path num_chan) = Inr img \<and>
    (if crop then resize_with_crop_or_pad img h w [(''method'', interp)]
     else if \<not> regex_full_match path ''.dcm'' \<and>
             (regex_full_match path ''.npz'' \<or> regex_full_match path ''.npy'')
       then resize_with_pad eng img h w interp
     else resize eng img (h, w) interp) = Inr img1 \<longrightarrow>
      load_image eng path (h, w) num_chan interp crop
        = (if shape img1 = [h, w, num_chan] then Inr img1
           else Inl (ValueError IncompatibleShapes)))"
proof (intro conjI impI)
  assume "load_image eng path (h, w) num_chan interp crop = Inr t"
  then obtain img0 where "shape t = [fst (h, w), snd (h, w), num_chan]"
    by (rule load_image_Inr)
  then show "shape t = [h, w, num_chan]" by simp
next
  assume "(if regex_full_match path ''.dcm'' then dicom_image eng path num_chan
     else if regex_full_match path ''.npz''
       then numpy_function (decode_npz_image eng path num_chan)
     else if regex_full_match path ''.npy''
       then numpy_function (decode_npy_image eng path num_chan)
     else raster_image eng path num_chan) = Inr img \<and>
    (if crop then resize_with_crop_or_pad img h w [(''method'', interp)]
     else if \<not> regex_full_match path ''.dcm'' \<and>
             (regex_full_match path ''.npz'' \<or> regex_full_match path ''.npy'')
       then resize_with_pad eng img h w interp
     else resize eng img (h, w) interp) = Inr img1"
  then have a: "(if regex_full_match path ''.dcm'' then dicom_image eng path num_chan
     else if regex_full_match path ''.npz''
       then numpy_function (decode_npz_image eng path num_chan)
     else if regex_full_match path ''.npy''
       then numpy_function (decode_npy_image eng path num_chan)
     else raster_image eng path num_chan) = Inr img"
    and b0: "(if crop then resize_with_crop_or_pad img h w [(''method'', interp)]
     else if \<not> regex_full_match path ''.dcm'' \<and>
             (regex_full_match path ''.npz'' \<or> regex_full_match path ''.npy'')
       then resize_with_pad eng img h w interp
     else resize eng img (h, w) interp) = Inr img1"
    by (rule conjunct1, rule conjunct2)
  from b0 have b: "(if crop
          then resize_with_crop_or_pad img (fst (h, w)) (snd (h, w)) [(''method'', interp)]
          else if \<not> regex_full_match path ''.dcm'' \<and>
                  (regex_full_match path ''.npz'' \<or> regex_full_match path ''.npy'')
            then resize_with_pad eng img (fst (h, w)) (snd (h, w)) interp
          else resize eng img (h, w) interp) = Inr img1"
    by (simp only: fst_conv snd_conv)
  show "load_image eng path (h, w) num_chan interp crop
        = (if shape img1 = [h, w, num_chan] then Inr img1
           else Inl (ValueError IncompatibleShapes))"
    unfolding load_image_eq a bindE_Inr b by (simp add: set_shape_def)
qed

theorem load_image_shape_asserted_witness:
  "load_image stub_engine ''a.npz'' (2, 2) 3 ''bilinear'' False
     = Inr \<lparr>shape = [2, 2, 3], data = [1, 1, 1, 2, 2, 2, 0, 0, 0, 0, 0, 0]\<rparr> \<and>
   load_image stub_engine ''a.npy'' (2, 2) 3 ''bilinear'' False
     = Inr \<lparr>shape = [2, 2, 3], data = [1, 1, 1, 2, 2, 2, 0, 0, 0, 0, 0, 0]\<rparr> \<and>
   load_image stub_engine ''a.png'' (2, 2) 3 ''bilinear'' False
     = Inr \<lparr>shape = [2, 2, 3], data = [1, 1, 1, 2, 2, 2, 1, 1, 1, 2, 2, 2]\<rparr> \<and>
   load_image stub_engine ''scan.dcm'' (2, 2) 3 ''bilinear'' False
     = Inr \<lparr>shape = [2, 2, 3], data = [1, 1, 1, 2, 2, 2, 1, 1, 1, 2, 2, 2]\<rparr> \<and>
   shape \<lparr>shape = [2, 2, 3], data = [1, 1, 1, 2, 2, 2, 0, 0, 0, 0, 0, 0]\<rparr> = [2, 2, 3] \<and>
   dicom_image stub_engine ''rgb.dcm'' 3
     = Inr \<lparr>shape = [1, 2, 9],
             data = [1, 2, 3, 1, 2, 3, 1, 2, 3, 4, 5, 6, 4, 5, 6, 4, 5, 6]\<rparr> \<and>
   resize stub_engine
     \<lparr>shape = [1, 2, 9], data = [1, 2, 3, 1, 2, 3, 1, 2, 3, 4, 5, 6, 4, 5, 6, 4, 5, 6]\<rparr>
     (2, 2) ''bilinear''
     = Inr \<lparr>shape = [2, 2, 9],
             data = [1, 2, 3, 1, 2, 3, 1, 2, 3, 4, 5, 6, 4, 5, 6, 4, 5, 6,
                     1, 2, 3, 1, 2, 3, 1, 2, 3, 4, 5, 6, 4, 5, 6, 4, 5, 6]\<rparr> \<and>
   load_image stub_engine ''rgb.dcm'' (2, 2) 3 ''bilinear'' False
     = Inl (ValueError IncompatibleShapes)"
proof -
  let ?d = "[1, 2, 3, 1, 2, 3, 1, 2, 3, 4, 5, 6, 4, 5, 6, 4, 5, 6] :: rat list"
  let ?img = "\<lparr>shape = [1, 2, 3], data = [1, 1, 1, 2, 2, 2]\<rparr>"
  let ?padded = "\<lparr>shape = [2, 2, 3], data = [1, 1, 1, 2, 2, 2, 0, 0, 0, 0, 0, 0]\<rparr>"
  let ?stretched = "\<lparr>shape = [2, 2, 3], data = [1, 1, 1, 2, 2, 2, 1, 1, 1, 2, 2, 2]\<rparr>"
  have pad: "resize_with_pad stub_engine ?img 2 2 ''bilinear'' = Inr ?padded"
    using stub_letterbox_row [of "[1, 1, 1, 2, 2, 2]" 3]
    by (simp add: stub_engine_def numeral_eq_Suc)
  have plain: "resize stub_engine ?img (2, 2) ''bilinear'' = Inr ?stretched"
    using stub_nearest_row [of "[1, 1, 1, 2, 2, 2]" 3]
    by (simp add: stub_engine_def)
  have z: "numpy_function (decode_npz_image stub_engine ''a.npz'' 3) = Inr ?img"
    and y: "numpy_function (decode_npy_image stub_engine ''a.npy'' 3) = Inr ?img"
    using stub_plane_3
    by (simp_all add: numpy_function_Inr decode_npz_image_Some decode_npy_image_Some
        stub_engine_def)
  have p: "raster_image stub_engine ''a.png'' 3 = Inr ?img"
    and s: "dicom_image stub_engine ''scan.dcm'' 3 = Inr ?img"
    by (simp_all add: stub_engine_def raster_image_def dicom_image_def
        assert_single_frame_def dicom_channels_def tf_concat_def concat_last_def
        numeral_eq_Suc)
  have d: "dicom_image stub_engine ''rgb.dcm'' 3 = Inr \<lparr>shape = [1, 2, 9], data = ?d\<rparr>"
    by (simp add: stub_engine_def dicom_image_def assert_single_frame_def
        dicom_channels_def tf_concat_def concat_last_def upt_2)
  have r: "resize stub_engine \<lparr>shape = [1, 2, 9], data = ?d\<rparr> (2, 2) ''bilinear''
           = Inr \<lparr>shape = [2, 2, 9], data = ?d @ ?d\<rparr>"
    using stub_nearest_row [of ?d 9] by (simp add: stub_engine_def)
  from load_image_shape_asserted [of stub_engine "''a.npz''" 2 2 3 "''bilinear''" False
      ?padded ?img ?padded, THEN conjunct2] stub_matches z pad
  have 1: "load_image stub_engine ''a.npz'' (2, 2) 3 ''bilinear'' False = Inr ?padded"
    by simp
  from load_image_shape_asserted [of stub_engine "''a.npy''" 2 2 3 "''bilinear''" False
      ?padded ?img ?padded, THEN conjunct2] stub_matches y pad
  have 2: "load_image stub_engine ''a.npy'' (2, 2) 3 ''bilinear'' False = Inr ?padded"
    by simp
  from load_image_shape_asserted [of stub_engine "''a.png''" 2 2 3 "''bilinear''" False
      ?stretched ?img ?stretched, THEN conjunct2] stub_matches p plain
  have 3: "load_image stub_engine ''a.png'' (2, 2) 3 ''bilinear'' False = Inr ?stretched"
    by simp
  from load_image_shape_asserted [of stub_engine "''scan.dcm''" 2 2 3 "''bilinear''" False
      ?stretched ?img ?stretched, THEN conjunct2] match_scan s plain
  have 4: "load_image stub_engine ''scan.dcm'' (2, 2) 3 ''bilinear'' False = Inr ?stretched"
    by simp
  from load_image_shape_asserted [of stub_engine "''rgb.dcm''" 2 2 3 "''bilinear''" False
      "\<lparr>shape = [2, 2, 9], data = ?d @ ?d\<rparr>" "\<lparr>shape = [1, 2, 9], data = ?d\<rparr>"
      "\<lparr>shape = [2, 2, 9], data = ?d @ ?d\<rparr>", THEN conjunct2] stub_matches d r
  have 5: "load_image stub_engine ''rgb.dcm'' (2, 2) 3 ''bilinear'' False
     = Inl (ValueError IncompatibleShapes)"
    by simp
  from load_image_shape_asserted [of stub_engine "''a.npz''" 2 2 3 "''bilinear''" False
      ?padded, THEN conjunct1] 1
  have 6: "shape ?padded = [2, 2, 3]"
    by simp
  from 1 2 3 4 5 6 d r show ?thesis by simp
qed

end
